theory Spec2Isabelle
  imports Complex_Main "HOL-Library.Multiset"
begin

section \<open>Data model\<close>

text \<open>
  Every datetime the calendar service stores is timezone-aware, and Python compares and
  subtracts aware datetimes by their instant. An instant is modelled as the number of
  microseconds since a fixed origin (the resolution of \<^verbatim>\<open>datetime\<close>); the
  range of years that \<^verbatim>\<open>datetime\<close> can represent is not modelled.
  \<^verbatim>\<open>datetime.now(self.timezone)\<close> is a clock: the \<open>n\<close>-th reading of a run is
  \<open>clk n\<close>, and every function that reads the clock is given the number of readings made
  so far and returns the new number.
\<close>

type_synonym datetime = int
type_synonym clock = "nat \<Rightarrow> datetime"

definition timedelta_hours :: "int \<Rightarrow> int" where
  "timedelta_hours h = h * 3600 * 1000000"

definition total_seconds :: "int \<Rightarrow> rat" where
  "total_seconds d = of_int d / 1000000"

datatype status = upcoming | current | past

datatype kind = start | warning

datatype exn = HttpError | KeyError | ValueError | OtherException

record event =
  ev_id :: string
  title :: string
  description :: string
  location :: string
  start_datetime :: datetime
  end_datetime :: datetime
  is_all_day :: bool
  calendar_name :: string
  calendar_color :: string
  ev_status :: status
  formatted_time :: string

section \<open>Status derivation\<close>

text \<open>\<^verbatim>\<open>CalendarService._get_event_status\<close>, with the clock reading \<open>now\<close> it makes.\<close>

definition get_event_status :: "datetime \<Rightarrow> datetime \<Rightarrow> datetime \<Rightarrow> status" where
  "get_event_status now start_dt end_dt =
     (if now < start_dt then upcoming
      else if start_dt \<le> now \<and> now \<le> end_dt then current
      else past)"

text \<open>
  \<^verbatim>\<open>CalendarDisplayWindow.update_event_statuses\<close>: the loop over
  \<^verbatim>\<open>self.current_events\<close> reads the clock once per event, overwrites the stored status
  and remembers whether some event went from current to past. The result is the updated
  list, the flag \<^verbatim>\<open>marker_needs_update\<close> and the number of clock readings.
\<close>

fun update_statuses_loop ::
  "clock \<Rightarrow> nat \<Rightarrow> bool \<Rightarrow> event list \<Rightarrow> event list \<times> bool \<times> nat" where
  "update_statuses_loop clk n marker [] = ([], marker, n)"
| "update_statuses_loop clk n marker (e # es) =
     (let now = clk n;
          start_time = start_datetime e;
          end_time = end_datetime e;
          old_status = ev_status e;
          new_status =
            (if now < start_time then upcoming
             else if start_time \<le> now \<and> now \<le> end_time then current
             else past);
          e' = e\<lparr>ev_status := new_status\<rparr>;
          marker' = (if old_status = current \<and> new_status = past then True else marker);
          (es', m, n') = update_statuses_loop clk (Suc n) marker' es
      in (e' # es', m, n'))"

definition update_event_statuses ::
  "clock \<Rightarrow> nat \<Rightarrow> event list \<Rightarrow> event list \<times> bool \<times> nat" where
  "update_event_statuses clk n current_events =
     (if current_events = [] then (current_events, False, n)
      else update_statuses_loop clk n False current_events)"

section \<open>Configuration and library parameters\<close>

text \<open>
  \<^verbatim>\<open>config/settings.py\<close>: the recognised options the core reads. \<open>default_settings\<close>
  holds the values of the file.
\<close>

record settings =
  MAX_EVENTS_DISPLAY :: nat
  WARNING_MINUTES :: int
  NOTIFICATION_TIMEOUT :: int

definition default_settings :: settings where
  "default_settings =
     \<lparr>MAX_EVENTS_DISPLAY = 5, WARNING_MINUTES = 10, NOTIFICATION_TIMEOUT = 30\<rparr>"

text \<open>
  The parsing and formatting functions of the Python library and of \<^verbatim>\<open>pytz\<close> are
  parameters of the model. \<open>fromisoformat\<close> and \<open>strptime_ymd\<close> answer \<open>None\<close> where
  Python raises \<^verbatim>\<open>ValueError\<close>; a parsed datetime is naive (a wall-clock value to
  be localized) or aware (an instant). \<open>localize\<close> is \<^verbatim>\<open>self.timezone.localize\<close>;
  \<^verbatim>\<open>astimezone\<close> keeps the instant. \<open>strftime_time\<close> is
  \<^verbatim>\<open>strftime("%I:%M %p").lstrip('0')\<close>, \<open>date_of\<close> is \<^verbatim>\<open>.date()\<close>, and
  \<open>day_window\<close> gives \<^verbatim>\<open>time_min\<close> and \<^verbatim>\<open>time_max\<close> of the day of a clock reading.
\<close>

datatype py_datetime = Naive int | Aware datetime

record pylib =
  fromisoformat :: "string \<Rightarrow> py_datetime option"
  strptime_ymd :: "string \<Rightarrow> int option"
  localize :: "int \<Rightarrow> datetime"
  strftime_time :: "datetime \<Rightarrow> string"
  date_of :: "datetime \<Rightarrow> int"
  day_window :: "datetime \<Rightarrow> string \<times> string"

section \<open>Raw records of the calendar gateway\<close>

text \<open>
  A raw event is the dictionary the API returns; a key that is absent is \<open>None\<close>.
  \<^verbatim>\<open>event['start']\<close> and \<^verbatim>\<open>event['end']\<close> are dictionaries with the keys
  \<^verbatim>\<open>dateTime\<close> and \<^verbatim>\<open>date\<close>.
\<close>

record raw_time =
  dateTime :: "string option"
  date :: "string option"

record raw_event =
  raw_id :: "string option"
  raw_summary :: "string option"
  raw_description :: "string option"
  raw_location :: "string option"
  raw_start :: "raw_time option"
  raw_end :: "raw_time option"

record raw_calendar =
  rc_id :: "string option"
  rc_summary :: "string option"
  rc_primary :: "bool option"
  rc_backgroundColor :: "string option"

record calendar =
  cal_id :: string
  cal_summary :: string
  cal_primary :: bool
  backgroundColor :: string

text \<open>
  The gateway: whether \<^verbatim>\<open>GoogleCalendarAuth.authenticate\<close> succeeds, what
  \<^verbatim>\<open>calendarList().list().execute()\<close> answers, and what
  \<^verbatim>\<open>events().list(calendarId, timeMin, timeMax, maxResults).execute()\<close> answers
  (\<open>Inl\<close> the exception raised).
\<close>

record gateway =
  authenticate :: bool
  calendarList_list :: "exn + raw_calendar list"
  events_list :: "string \<Rightarrow> string \<Rightarrow> string \<Rightarrow> nat \<Rightarrow> exn + raw_event list"

datatype log_entry =
    Failed_to_get_calendar_service
  | Error_getting_calendar_list exn
  | Error_fetching_events_from_calendar string exn
  | Error_processing_event exn
  | Fetched_events nat
  | Error_fetching_todays_events exn
  | Error_refreshing_events exn

section \<open>Event normalizer\<close>

text \<open>\<^verbatim>\<open>d.get('dateTime', d.get('date'))\<close>\<close>

definition get_time_value :: "raw_time \<Rightarrow> string option" where
  "get_time_value d = (case dateTime d of Some v \<Rightarrow> Some v | None \<Rightarrow> date d)"

text \<open>\<^verbatim>\<open>s.replace('Z', '+00:00')\<close>\<close>

definition replace_Z :: "string \<Rightarrow> string" where
  "replace_Z s = concat (map (\<lambda>c. if c = CHR ''Z'' then ''+00:00'' else [c]) s)"

definition to_timezone :: "pylib \<Rightarrow> py_datetime \<Rightarrow> datetime" where
  "to_timezone L d = (case d of Naive w \<Rightarrow> localize L w | Aware i \<Rightarrow> i)"

text \<open>The block "Parse start time": the start instant and \<^verbatim>\<open>is_all_day\<close>.\<close>

definition parse_start :: "pylib \<Rightarrow> string \<Rightarrow> exn + datetime \<times> bool" where
  "parse_start L s =
     (if CHR ''T'' \<in> set s then
        (case fromisoformat L (replace_Z s) of
           None \<Rightarrow> Inl ValueError
         | Some d \<Rightarrow> Inr (to_timezone L d, False))
      else
        (case strptime_ymd L s of
           None \<Rightarrow> Inl ValueError
         | Some w \<Rightarrow> Inr (localize L w, True)))"

text \<open>The block "Get event end time", given the value \<^verbatim>\<open>end\<close> and the start.\<close>

definition parse_end :: "pylib \<Rightarrow> string option \<Rightarrow> datetime \<Rightarrow> exn + datetime" where
  "parse_end L en start_dt =
     (case en of
        None \<Rightarrow> Inr (start_dt + timedelta_hours 1)
      | Some e \<Rightarrow>
          if e \<noteq> [] \<and> CHR ''T'' \<in> set e then
            (case fromisoformat L (replace_Z e) of
               None \<Rightarrow> Inl ValueError
             | Some d \<Rightarrow> Inr (to_timezone L d))
          else Inr (start_dt + timedelta_hours 1))"

text \<open>\<^verbatim>\<open>CalendarService._format_event_time\<close>\<close>

definition format_event_time :: "pylib \<Rightarrow> datetime \<Rightarrow> datetime \<Rightarrow> bool \<Rightarrow> string" where
  "format_event_time L start_dt end_dt all_day =
     (if all_day then ''All Day''
      else if date_of L start_dt = date_of L end_dt
        then strftime_time L start_dt @ '' - '' @ strftime_time L end_dt
        else strftime_time L start_dt)"

text \<open>
  The \<^verbatim>\<open>try\<close> block of \<^verbatim>\<open>CalendarService._process_event\<close>: \<open>Inl\<close> the exception it
  raises, \<open>Inr None\<close> the silent discard of a record without a start value. \<open>now\<close> is
  the clock reading of \<^verbatim>\<open>_get_event_status\<close>, made only when the record got that far.
\<close>

definition process_event_try ::
  "pylib \<Rightarrow> datetime \<Rightarrow> raw_event \<Rightarrow> calendar \<Rightarrow> exn + event option" where
  "process_event_try L now ev cal =
     (case raw_start ev of
        None \<Rightarrow> Inl KeyError
      | Some st \<Rightarrow>
          (case get_time_value st of
             None \<Rightarrow> Inr None
           | Some s \<Rightarrow>
               if s = [] then Inr None
               else
                 (case parse_start L s of
                    Inl x \<Rightarrow> Inl x
                  | Inr (start_dt, all_day) \<Rightarrow>
                      (case raw_end ev of
                         None \<Rightarrow> Inl KeyError
                       | Some en \<Rightarrow>
                           (case parse_end L (get_time_value en) start_dt of
                              Inl x \<Rightarrow> Inl x
                            | Inr end_dt \<Rightarrow>
                                (case raw_id ev of
                                   None \<Rightarrow> Inl KeyError
                                 | Some i \<Rightarrow>
                                     Inr (Some
                                       \<lparr>ev_id = i,
                                        title = (case raw_summary ev of None \<Rightarrow> ''No Title'' | Some t \<Rightarrow> t),
                                        description = (case raw_description ev of None \<Rightarrow> [] | Some t \<Rightarrow> t),
                                        location = (case raw_location ev of None \<Rightarrow> [] | Some t \<Rightarrow> t),
                                        start_datetime = start_dt,
                                        end_datetime = end_dt,
                                        is_all_day = all_day,
                                        calendar_name = cal_summary cal,
                                        calendar_color = backgroundColor cal,
                                        ev_status = get_event_status now start_dt end_dt,
                                        formatted_time = format_event_time L start_dt end_dt all_day\<rparr>)))))))"

text \<open>
  \<^verbatim>\<open>CalendarService._process_event\<close>: the \<^verbatim>\<open>except Exception\<close> clause prints and
  answers \<^verbatim>\<open>None\<close>.
\<close>

definition process_event ::
  "pylib \<Rightarrow> datetime \<Rightarrow> raw_event \<Rightarrow> calendar \<Rightarrow> event option \<times> log_entry list" where
  "process_event L now ev cal =
     (case process_event_try L now ev cal of
        Inl x \<Rightarrow> (None, [Error_processing_event x])
      | Inr r \<Rightarrow> (r, []))"

text \<open>
  The records that \<^verbatim>\<open>_process_event\<close> leaves at \<^verbatim>\<open>if not start: return None\<close>:
  the start dictionary is there and its value is absent or empty.
\<close>

definition no_start_value :: "raw_event \<Rightarrow> bool" where
  "no_start_value ev =
     (case raw_start ev of
        None \<Rightarrow> False
      | Some st \<Rightarrow> (case get_time_value st of None \<Rightarrow> True | Some s \<Rightarrow> s = []))"

section \<open>Authentication service and calendar list\<close>

text \<open>
  The state of \<^verbatim>\<open>CalendarService\<close>: whether \<^verbatim>\<open>self.auth.service\<close> has been built,
  \<^verbatim>\<open>self.events\<close> (the Timeline) and \<^verbatim>\<open>self.last_update\<close>.
\<close>

record calendar_service =
  service_built :: bool
  events :: "event list"
  last_update :: "datetime option"

text \<open>
  \<^verbatim>\<open>GoogleCalendarAuth.get_service\<close>: whether a service object is returned, and the
  state (\<^verbatim>\<open>authenticate\<close> catches its own exceptions and stores the service it builds).
\<close>

definition get_service :: "gateway \<Rightarrow> calendar_service \<Rightarrow> bool \<times> calendar_service" where
  "get_service G cs =
     (if \<not> service_built cs then
        (if \<not> authenticate G then (False, cs)
         else (True, cs\<lparr>service_built := True\<rparr>))
      else (True, cs))"

text \<open>The loop building \<^verbatim>\<open>calendar_info\<close>; a missing id or summary raises \<^verbatim>\<open>KeyError\<close>.\<close>

fun calendar_infos :: "raw_calendar list \<Rightarrow> exn + calendar list" where
  "calendar_infos [] = Inr []"
| "calendar_infos (c # cs) =
     (case rc_id c of
        None \<Rightarrow> Inl KeyError
      | Some i \<Rightarrow>
          (case rc_summary c of
             None \<Rightarrow> Inl KeyError
           | Some sm \<Rightarrow>
               (case calendar_infos cs of
                  Inl x \<Rightarrow> Inl x
                | Inr infos \<Rightarrow>
                    Inr (\<lparr>cal_id = i, cal_summary = sm,
                          cal_primary = (case rc_primary c of None \<Rightarrow> False | Some b \<Rightarrow> b),
                          backgroundColor =
                            (case rc_backgroundColor c of None \<Rightarrow> ''#ffffff'' | Some b \<Rightarrow> b)\<rparr>
                         # infos))))"

text \<open>
  \<^verbatim>\<open>GoogleCalendarAuth.get_calendar_list\<close>: every exception is caught there and
  answered by the empty list.
\<close>

definition get_calendar_list ::
  "gateway \<Rightarrow> calendar_service \<Rightarrow> calendar list \<times> calendar_service \<times> log_entry list" where
  "get_calendar_list G cs =
     (case get_service G cs of
        (False, cs') \<Rightarrow> ([], cs', [])
      | (True, cs') \<Rightarrow>
          (case calendarList_list G of
             Inl x \<Rightarrow> ([], cs', [Error_getting_calendar_list x])
           | Inr calendars \<Rightarrow>
               (case calendar_infos calendars of
                  Inl x \<Rightarrow> ([], cs', [Error_getting_calendar_list x])
                | Inr calendar_list \<Rightarrow> (calendar_list, cs', []))))"

section \<open>Refresh\<close>

text \<open>
  The inner loop of \<^verbatim>\<open>get_today_events\<close> over the records of one calendar: the
  events appended to \<^verbatim>\<open>all_events\<close>, the number of clock readings, and the log.
\<close>

fun process_events ::
  "pylib \<Rightarrow> clock \<Rightarrow> nat \<Rightarrow> calendar \<Rightarrow> raw_event list \<Rightarrow> event list \<times> nat \<times> log_entry list" where
  "process_events L clk n cal [] = ([], n, [])"
| "process_events L clk n cal (r # rs) =
     (case process_event L (clk n) r cal of
        (None, lg) \<Rightarrow>
          (case process_events L clk n cal rs of (es, n', lg') \<Rightarrow> (es, n', lg @ lg'))
      | (Some e, lg) \<Rightarrow>
          (case process_events L clk (Suc n) cal rs of (es, n', lg') \<Rightarrow> (e # es, n', lg @ lg')))"

text \<open>
  The loop over the calendars. \<^verbatim>\<open>except HttpError\<close> prints and continues with the next
  calendar; any other exception of the fetch leaves the loop (the first component is then
  the exception).
\<close>

fun fetch_calendars ::
  "settings \<Rightarrow> pylib \<Rightarrow> gateway \<Rightarrow> clock \<Rightarrow> string \<Rightarrow> string \<Rightarrow> nat \<Rightarrow> calendar list \<Rightarrow>
     exn option \<times> event list \<times> nat \<times> log_entry list" where
  "fetch_calendars S L G clk time_min time_max n [] = (None, [], n, [])"
| "fetch_calendars S L G clk time_min time_max n (c # cs) =
     (case events_list G (cal_id c) time_min time_max (MAX_EVENTS_DISPLAY S) of
        Inl x \<Rightarrow>
          if x = HttpError then
            (case fetch_calendars S L G clk time_min time_max n cs of
               (r, es, n', lg) \<Rightarrow>
                 (r, es, n', Error_fetching_events_from_calendar (cal_summary c) x # lg))
          else (Some x, [], n, [])
      | Inr items \<Rightarrow>
          (case process_events L clk n c items of
             (es, n', lg) \<Rightarrow>
               (case fetch_calendars S L G clk time_min time_max n' cs of
                  (r, es', n'', lg') \<Rightarrow> (r, es @ es', n'', lg @ lg'))))"

text \<open>
  The \<^verbatim>\<open>try\<close> block of \<^verbatim>\<open>CalendarService.get_today_events\<close>: the value returned or
  the exception raised, the state, the number of clock readings and the log.
  \<^verbatim>\<open>all_events.sort(key=...)\<close> is a stable sort, as \<open>sort_key\<close> is.
\<close>

definition get_today_events_try ::
  "settings \<Rightarrow> pylib \<Rightarrow> gateway \<Rightarrow> clock \<Rightarrow> nat \<Rightarrow> calendar_service \<Rightarrow>
     (exn + event list) \<times> calendar_service \<times> nat \<times> log_entry list" where
  "get_today_events_try S L G clk n cs =
     (case get_service G cs of
        (False, cs1) \<Rightarrow> (Inr [], cs1, n, [Failed_to_get_calendar_service])
      | (True, cs1) \<Rightarrow>
          (case day_window L (clk n) of
             (time_min, time_max) \<Rightarrow>
               (case get_calendar_list G cs1 of
                  (calendars, cs2, lg1) \<Rightarrow>
                    (case fetch_calendars S L G clk time_min time_max (Suc n) calendars of
                       (Some x, es, n', lg2) \<Rightarrow> (Inl x, cs2, n', lg1 @ lg2)
                     | (None, all_events, n', lg2) \<Rightarrow>
                         (let sorted_events = sort_key start_datetime all_events;
                              cs3 = cs2\<lparr>events := take (MAX_EVENTS_DISPLAY S) sorted_events,
                                        last_update := Some (clk n')\<rparr>
                          in (Inr (events cs3), cs3, Suc n',
                              lg1 @ lg2 @ [Fetched_events (length (events cs3))]))))))"

text \<open>
  \<^verbatim>\<open>CalendarService.get_today_events\<close>: the \<^verbatim>\<open>except Exception\<close> clause prints and
  returns the empty list. The result is still typed as a call that may raise.
\<close>

definition get_today_events ::
  "settings \<Rightarrow> pylib \<Rightarrow> gateway \<Rightarrow> clock \<Rightarrow> nat \<Rightarrow> calendar_service \<Rightarrow>
     (exn + event list) \<times> calendar_service \<times> nat \<times> log_entry list" where
  "get_today_events S L G clk n cs =
     (case get_today_events_try S L G clk n cs of
        (Inl x, cs', n', lg) \<Rightarrow> (Inr [], cs', n', lg @ [Error_fetching_todays_events x])
      | (Inr r, cs', n', lg) \<Rightarrow> (Inr r, cs', n', lg))"

text \<open>\<^verbatim>\<open>CalendarService.refresh_events\<close>\<close>

definition refresh_events ::
  "settings \<Rightarrow> pylib \<Rightarrow> gateway \<Rightarrow> clock \<Rightarrow> nat \<Rightarrow> calendar_service \<Rightarrow>
     bool \<times> calendar_service \<times> nat \<times> log_entry list" where
  "refresh_events S L G clk n cs =
     (case get_today_events S L G clk n cs of
        (Inr r, cs', n', lg) \<Rightarrow> (True, cs', n', lg)
      | (Inl x, cs', n', lg) \<Rightarrow> (False, cs', n', lg @ [Error_refreshing_events x]))"

section \<open>Notification rule engine\<close>

text \<open>
  \<^verbatim>\<open>CalendarService.get_events_needing_notification\<close>: one clock reading \<open>now\<close>, then
  the loop over \<^verbatim>\<open>self.events\<close>.
\<close>

fun needing_notification_loop :: "int \<Rightarrow> datetime \<Rightarrow> event list \<Rightarrow> (event \<times> kind) list" where
  "needing_notification_loop warning_minutes now [] = []"
| "needing_notification_loop warning_minutes now (e # es) =
     (if ev_status e = past then needing_notification_loop warning_minutes now es
      else
        (let time_to_start = total_seconds (start_datetime e - now) in
         if 0 \<le> time_to_start \<and> time_to_start \<le> 60
           then (e, start) # needing_notification_loop warning_minutes now es
         else if of_int (warning_minutes * 60 - 60) \<le> time_to_start
                 \<and> time_to_start \<le> of_int (warning_minutes * 60 + 60)
           then (e, warning) # needing_notification_loop warning_minutes now es
         else needing_notification_loop warning_minutes now es))"

definition get_events_needing_notification ::
  "calendar_service \<Rightarrow> int \<Rightarrow> datetime \<Rightarrow> (event \<times> kind) list" where
  "get_events_needing_notification cs warning_minutes now =
     needing_notification_loop warning_minutes now (events cs)"

section \<open>Alert widget and backlog (\<^verbatim>\<open>ui/notification_widget.py\<close>)\<close>

text \<open>
  A notification record is the dictionary with the keys \<^verbatim>\<open>event\<close>, \<^verbatim>\<open>type\<close> and
  \<^verbatim>\<open>timestamp\<close>; its identity is the pair of the event id and the kind.
\<close>

record notification =
  n_event :: event
  n_type :: kind
  n_timestamp :: datetime

definition pair_of :: "notification \<Rightarrow> string \<times> kind" where
  "pair_of r = (ev_id (n_event r), n_type r)"

text \<open>
  \<^verbatim>\<open>NotificationWidget\<close>: what Qt holds for the overlay (whether it is visible, the
  opacity of its effect, which animations run, whether the single-shot auto-dismiss timer
  is active) and the two attributes of the class. The texts of the labels and the style
  sheets are rendering and are left out. Both animations drive the property
  \<^verbatim>\<open>opacity\<close> of the one effect. The writes Qt makes while an animation runs and when
  it ends are the steps \<open>Animation_value\<close>, \<open>Fade_in_finished\<close> and
  \<open>Fade_out_finished\<close> below.
\<close>

record notification_widget =
  visible :: bool
  opacity :: rat
  current_event :: "event option"
  notification_type :: "kind option"
  fade_in_running :: bool
  fade_out_running :: bool
  auto_dismiss_timer :: bool

definition is_showing :: "notification_widget \<Rightarrow> bool" where
  "is_showing w = (visible w \<and> 0 < opacity w)"

text \<open>
  \<^verbatim>\<open>QPropertyAnimation.start()\<close>: nothing happens when the animation is already
  running; otherwise it becomes the running one, an animation running on the same property
  is stopped (without its \<^verbatim>\<open>finished\<close> signal), and the start value is written to
  the property at once.
\<close>

definition fade_in_animation_start :: "notification_widget \<Rightarrow> notification_widget" where
  "fade_in_animation_start w =
     (if fade_in_running w then w
      else w\<lparr>fade_in_running := True, fade_out_running := False, opacity := 0\<rparr>)"

definition fade_out_animation_start :: "notification_widget \<Rightarrow> notification_widget" where
  "fade_out_animation_start w =
     (if fade_out_running w then w
      else w\<lparr>fade_out_running := True, fade_in_running := False, opacity := 1\<rparr>)"

text \<open>
  \<^verbatim>\<open>NotificationWidget.show_notification\<close>; \<^verbatim>\<open>update_content\<close> reads the clock
  for a warning.
\<close>

definition widget_show_notification ::
  "nat \<Rightarrow> notification_widget \<Rightarrow> event \<Rightarrow> kind \<Rightarrow> notification_widget \<times> nat" where
  "widget_show_notification n w event_data k =
     ((fade_in_animation_start
         (w\<lparr>current_event := Some event_data, notification_type := Some k, visible := True\<rparr>))
        \<lparr>auto_dismiss_timer := True\<rparr>,
      if k = warning then Suc n else n)"

text \<open>
  \<^verbatim>\<open>NotificationWidget.dismiss\<close> and \<^verbatim>\<open>auto_dismiss\<close>, up to the emission of
  \<^verbatim>\<open>dismissed\<close>, which the manager below receives. \<^verbatim>\<open>auto_dismiss\<close> is the slot
  of the single-shot timer, which is no longer active when it runs.
\<close>

definition widget_dismiss :: "notification_widget \<Rightarrow> notification_widget" where
  "widget_dismiss w = fade_out_animation_start (w\<lparr>auto_dismiss_timer := False\<rparr>)"

definition widget_auto_dismiss :: "notification_widget \<Rightarrow> notification_widget" where
  "widget_auto_dismiss w = fade_out_animation_start (w\<lparr>auto_dismiss_timer := False\<rparr>)"

text \<open>The \<^verbatim>\<open>NotificationManager\<close> of the user interface: the widget, the backlog, the active record.\<close>

record ui_notification_manager =
  widget :: notification_widget
  notification_queue :: "notification list"
  ui_current_notification :: "notification option"

definition on_notification_dismissed :: "ui_notification_manager \<Rightarrow> ui_notification_manager" where
  "on_notification_dismissed u = u\<lparr>ui_current_notification := None\<rparr>"

text \<open>\<^verbatim>\<open>NotificationManager.show_notification\<close> (user interface)\<close>

definition ui_show_notification ::
  "clock \<Rightarrow> nat \<Rightarrow> ui_notification_manager \<Rightarrow> event \<Rightarrow> kind \<Rightarrow> ui_notification_manager \<times> nat" where
  "ui_show_notification clk n u event_data k =
     (let notification = \<lparr>n_event = event_data, n_type = k, n_timestamp = clk n\<rparr> in
      if is_showing (widget u) then
        (if \<not> list_ex (\<lambda>q. ev_id (n_event q) = ev_id event_data \<and> n_type q = k)
                 (notification_queue u)
         then (u\<lparr>notification_queue := notification_queue u @ [notification]\<rparr>, Suc n)
         else (u, Suc n))
      else
        (case widget_show_notification (Suc n) (widget u) event_data k of
           (w', n') \<Rightarrow> (u\<lparr>ui_current_notification := Some notification, widget := w'\<rparr>, n')))"

text \<open>\<^verbatim>\<open>NotificationManager.process_queue\<close>, the backlog-drain tick\<close>

definition process_queue :: "nat \<Rightarrow> ui_notification_manager \<Rightarrow> ui_notification_manager \<times> nat" where
  "process_queue n u =
     (if \<not> is_showing (widget u) \<and> notification_queue u \<noteq> [] then
        (case notification_queue u of
           next_notification # rest \<Rightarrow>
             (case widget_show_notification n (widget u)
                     (n_event next_notification) (n_type next_notification) of
                (w', n') \<Rightarrow>
                  (u\<lparr>notification_queue := rest,
                     ui_current_notification := Some next_notification,
                     widget := w'\<rparr>, n'))
         | [] \<Rightarrow> (u, n))
      else (u, n))"

text \<open>
  \<^verbatim>\<open>NotificationManager.dismiss_current\<close>, and the user's or the timer's dismissal at
  the widget; the signal \<^verbatim>\<open>dismissed\<close> is connected to \<^verbatim>\<open>on_notification_dismissed\<close>.
\<close>

definition dismiss_current :: "ui_notification_manager \<Rightarrow> ui_notification_manager" where
  "dismiss_current u =
     (if is_showing (widget u)
      then on_notification_dismissed (u\<lparr>widget := widget_dismiss (widget u)\<rparr>)
      else u)"

definition ui_widget_dismiss :: "ui_notification_manager \<Rightarrow> ui_notification_manager" where
  "ui_widget_dismiss u = on_notification_dismissed (u\<lparr>widget := widget_dismiss (widget u)\<rparr>)"

definition ui_widget_auto_dismiss :: "ui_notification_manager \<Rightarrow> ui_notification_manager" where
  "ui_widget_auto_dismiss u =
     on_notification_dismissed (u\<lparr>widget := widget_auto_dismiss (widget u)\<rparr>)"

section \<open>Notification manager (\<^verbatim>\<open>services/notification_manager.py\<close>)\<close>

record notification_manager =
  shown_notifications :: "string set"
  current_notification :: "notification option"
  notification_start_time :: "datetime option"
  dismiss_timer :: bool

text \<open>
  The application: the calendar service, the notification manager and the manager of the
  user interface, wired as \<^verbatim>\<open>CalendarDisplayWindow.setup_connections\<close> does
  (\<^verbatim>\<open>show_notification\<close> to the user interface's \<^verbatim>\<open>show_notification\<close>,
  \<^verbatim>\<open>hide_notification\<close> to \<^verbatim>\<open>dismiss_current\<close>; a signal calls its slot at once).
  \<open>window_events_shared\<close> says that the window's \<^verbatim>\<open>current_events\<close> is the very
  list \<^verbatim>\<open>calendar_service.events\<close> (after a refresh that returned it); otherwise it
  is the fresh empty list of a failed refresh.
\<close>

record app =
  calendar :: calendar_service
  manager :: notification_manager
  ui :: ui_notification_manager
  window_events_shared :: bool
  clock_reads :: nat

definition kind_str :: "kind \<Rightarrow> string" where
  "kind_str k = (case k of start \<Rightarrow> ''start'' | warning \<Rightarrow> ''warning'')"

text \<open>\<^verbatim>\<open>f"{event['id']}_{notification_type}"\<close>\<close>

definition notification_key :: "event \<Rightarrow> kind \<Rightarrow> string" where
  "notification_key e k = ev_id e @ ''_'' @ kind_str k"

text \<open>\<^verbatim>\<open>NotificationManager.show_event_notification\<close>\<close>

definition show_event_notification :: "clock \<Rightarrow> app \<Rightarrow> event \<Rightarrow> kind \<Rightarrow> app" where
  "show_event_notification clk a e k =
     (let u1 = (if current_notification (manager a) \<noteq> None then dismiss_current (ui a) else ui a);
          n = clock_reads a;
          m1 = (manager a)\<lparr>current_notification :=
                   Some \<lparr>n_event = e, n_type = k, n_timestamp = clk n\<rparr>,
                 notification_start_time := Some (clk (Suc n))\<rparr>
      in case ui_show_notification clk (Suc (Suc n)) u1 e k of
           (u2, n') \<Rightarrow> a\<lparr>manager := m1\<lparr>dismiss_timer := True\<rparr>, ui := u2, clock_reads := n'\<rparr>)"

text \<open>\<^verbatim>\<open>NotificationManager.dismiss_notification\<close> and \<^verbatim>\<open>auto_dismiss_notification\<close>\<close>

definition dismiss_notification :: "app \<Rightarrow> app" where
  "dismiss_notification a =
     (if current_notification (manager a) \<noteq> None then
        a\<lparr>ui := dismiss_current (ui a),
          manager := (manager a)\<lparr>current_notification := None,
                                 notification_start_time := None,
                                 dismiss_timer := False\<rparr>\<rparr>
      else a)"

definition auto_dismiss_notification :: "app \<Rightarrow> app" where
  "auto_dismiss_notification a =
     (if current_notification (manager a) \<noteq> None
      then dismiss_notification (a\<lparr>manager := (manager a)\<lparr>dismiss_timer := False\<rparr>\<rparr>)
      else a\<lparr>manager := (manager a)\<lparr>dismiss_timer := False\<rparr>\<rparr>)"

text \<open>
  \<^verbatim>\<open>NotificationManager._cleanup_old_notifications\<close>: the cutoff time is computed
  (one clock reading) and not used; the set is cleared when it has more than 100 keys.
\<close>

definition cleanup_old_notifications :: "app \<Rightarrow> app" where
  "cleanup_old_notifications a =
     (let a1 = a\<lparr>clock_reads := Suc (clock_reads a)\<rparr> in
      if card (shown_notifications (manager a1)) > 100
      then a1\<lparr>manager := (manager a1)\<lparr>shown_notifications := {}\<rparr>\<rparr>
      else a1)"

text \<open>
  The loop of \<^verbatim>\<open>NotificationManager.check_notifications\<close>: the new state and the
  pairs handed to \<^verbatim>\<open>show_event_notification\<close>, in order (the alerts that fire).
\<close>

fun check_loop :: "clock \<Rightarrow> app \<Rightarrow> (event \<times> kind) list \<Rightarrow> app \<times> (event \<times> kind) list" where
  "check_loop clk a [] = (a, [])"
| "check_loop clk a ((e, k) # rest) =
     (let key = notification_key e k in
      if key \<in> shown_notifications (manager a) then check_loop clk a rest
      else
        (let a1 = show_event_notification clk a e k;
             a2 = a1\<lparr>manager := (manager a1)\<lparr>shown_notifications :=
                        insert key (shown_notifications (manager a1))\<rparr>\<rparr>;
             a3 = cleanup_old_notifications a2
         in case check_loop clk a3 rest of (a', fired) \<Rightarrow> (a', (e, k) # fired)))"

definition check_notifications :: "settings \<Rightarrow> clock \<Rightarrow> app \<Rightarrow> app \<times> (event \<times> kind) list" where
  "check_notifications S clk a =
     (let notifications =
            get_events_needing_notification (calendar a) (WARNING_MINUTES S) (clk (clock_reads a))
      in check_loop clk (a\<lparr>clock_reads := Suc (clock_reads a)\<rparr>) notifications)"

section \<open>The callbacks of the event loop\<close>

text \<open>
  \<^verbatim>\<open>CalendarDisplayWindow.refresh_calendar_data\<close>. A non-empty result of
  \<^verbatim>\<open>get_today_events\<close> is \<^verbatim>\<open>calendar_service.events\<close> itself, whose dictionaries
  the window then shares; an empty result leaves \<^verbatim>\<open>current_events\<close> empty.
\<close>

definition refresh_calendar_data :: "settings \<Rightarrow> pylib \<Rightarrow> gateway \<Rightarrow> clock \<Rightarrow> app \<Rightarrow> app" where
  "refresh_calendar_data S L G clk a =
     (case get_today_events S L G clk (clock_reads a) (calendar a) of
        (Inr evs, cs', n', lg) \<Rightarrow>
          a\<lparr>calendar := cs', window_events_shared := (evs \<noteq> []), clock_reads := Suc n'\<rparr>
      | (Inl x, cs', n', lg) \<Rightarrow> a\<lparr>calendar := cs', clock_reads := n'\<rparr>)"

text \<open>
  The status tick: \<^verbatim>\<open>update_event_statuses\<close> on the window's \<^verbatim>\<open>current_events\<close>,
  whose dictionaries are those of the Timeline.
\<close>

definition status_tick :: "clock \<Rightarrow> app \<Rightarrow> app" where
  "status_tick clk a =
     (if window_events_shared a then
        (case update_event_statuses clk (clock_reads a) (events (calendar a)) of
           (es, marker, n') \<Rightarrow> a\<lparr>calendar := (calendar a)\<lparr>events := es\<rparr>, clock_reads := n'\<rparr>)
      else a)"

text \<open>
  What the event loop can run next: the timers of the application, the user's input, and
  the progress of Qt's animations on the widget. A timer or an animation that is not
  active does nothing.
\<close>

datatype action =
    Refresh gateway
  | Status_tick
  | Check_notifications
  | Dismiss_timer_timeout
  | Process_queue
  | User_dismiss
  | Window_click
  | Auto_dismiss_timeout
  | Animation_value rat
  | Fade_in_finished
  | Fade_out_finished

definition with_widget :: "(notification_widget \<Rightarrow> notification_widget) \<Rightarrow> app \<Rightarrow> app" where
  "with_widget f a = a\<lparr>ui := (ui a)\<lparr>widget := f (widget (ui a))\<rparr>\<rparr>"

fun step :: "settings \<Rightarrow> pylib \<Rightarrow> clock \<Rightarrow> action \<Rightarrow> app \<Rightarrow> app \<times> (event \<times> kind) list" where
  "step S L clk (Refresh G) a = (refresh_calendar_data S L G clk a, [])"
| "step S L clk Status_tick a = (status_tick clk a, [])"
| "step S L clk Check_notifications a = check_notifications S clk a"
| "step S L clk Dismiss_timer_timeout a =
     (if dismiss_timer (manager a) then auto_dismiss_notification a else a, [])"
| "step S L clk Process_queue a =
     (case process_queue (clock_reads a) (ui a) of (u, n) \<Rightarrow> (a\<lparr>ui := u, clock_reads := n\<rparr>, []))"
| "step S L clk User_dismiss a =
     (if visible (widget (ui a)) then a\<lparr>ui := ui_widget_dismiss (ui a)\<rparr> else a, [])"
| "step S L clk Window_click a = (a\<lparr>ui := dismiss_current (ui a)\<rparr>, [])"
| "step S L clk Auto_dismiss_timeout a =
     (if auto_dismiss_timer (widget (ui a)) then a\<lparr>ui := ui_widget_auto_dismiss (ui a)\<rparr> else a, [])"
| "step S L clk (Animation_value v) a =
     (if (fade_in_running (widget (ui a)) \<or> fade_out_running (widget (ui a))) \<and> 0 \<le> v \<and> v \<le> 1
      then with_widget (\<lambda>w. w\<lparr>opacity := v\<rparr>) a else a, [])"
| "step S L clk Fade_in_finished a =
     (if fade_in_running (widget (ui a))
      then with_widget (\<lambda>w. w\<lparr>opacity := 1, fade_in_running := False\<rparr>) a else a, [])"
| "step S L clk Fade_out_finished a =
     (if fade_out_running (widget (ui a))
      then with_widget (\<lambda>w. w\<lparr>opacity := 0, fade_out_running := False, visible := False\<rparr>) a
      else a, [])"

text \<open>A run of callbacks, with all the alerts that fired.\<close>

fun run :: "settings \<Rightarrow> pylib \<Rightarrow> clock \<Rightarrow> action list \<Rightarrow> app \<Rightarrow> app \<times> (event \<times> kind) list" where
  "run S L clk [] a = (a, [])"
| "run S L clk (act # acts) a =
     (case step S L clk act a of
        (a1, fired) \<Rightarrow> (case run S L clk acts a1 of (a2, fired') \<Rightarrow> (a2, fired @ fired')))"

text \<open>
  The state after the constructors: no events, nothing shown, an empty backlog, a hidden
  widget (\<open>op\<close> is the opacity a new effect has).
\<close>

definition initial_app :: "rat \<Rightarrow> app" where
  "initial_app op =
     \<lparr>calendar = \<lparr>service_built = False, events = [], last_update = None\<rparr>,
      manager = \<lparr>shown_notifications = {}, current_notification = None,
                 notification_start_time = None, dismiss_timer = False\<rparr>,
      ui = \<lparr>widget = \<lparr>visible = False, opacity = op, current_event = None,
                       notification_type = None, fade_in_running = False,
                       fade_out_running = False, auto_dismiss_timer = False\<rparr>,
            notification_queue = [], ui_current_notification = None\<rparr>,
      window_events_shared = False,
      clock_reads = 0\<rparr>"

text \<open>
  A scan cannot reach the ceiling of the cache when the keys already there and the events
  of the Timeline are at most 100 together.
\<close>

definition below_ceiling :: "app \<Rightarrow> bool" where
  "below_ceiling a =
     (card (shown_notifications (manager a)) + length (events (calendar a)) \<le> 100)"

text \<open>The states a session reaches while no scan can reach the ceiling.\<close>

inductive reachable_below_ceiling :: "settings \<Rightarrow> pylib \<Rightarrow> clock \<Rightarrow> app \<Rightarrow> bool"
  for S :: settings and L :: pylib and clk :: clock where
  initial: "reachable_below_ceiling S L clk (initial_app op)"
| callback: "reachable_below_ceiling S L clk a \<Longrightarrow>
     act = Check_notifications \<longrightarrow> below_ceiling a \<Longrightarrow>
     reachable_below_ceiling S L clk (fst (step S L clk act a))"

section \<open>Concrete inputs\<close>

text \<open>
  A library for the examples: instants count microseconds from 2024-06-01T00:00:00Z, the
  time zone is four hours behind UTC, and the parsers know the strings of the examples.
\<close>

definition seconds :: "int \<Rightarrow> int" where
  "seconds s = s * 1000000"

definition sample_lib :: pylib where
  "sample_lib =
     \<lparr>fromisoformat = (\<lambda>s. map_of
         [(''2024-06-01T09:00:00-04:00'', Aware (timedelta_hours 13)),
          (''2024-06-01T10:00:00-04:00'', Aware (timedelta_hours 14)),
          (''2024-06-01T11:00:00-04:00'', Aware (timedelta_hours 15)),
          (''2024-06-01T12:00:00-04:00'', Aware (timedelta_hours 16)),
          (''2024-06-01T13:00:00-04:00'', Aware (timedelta_hours 17)),
          (''2024-06-01T13:00:20-04:00'', Aware (timedelta_hours 17 + seconds 20)),
          (''2024-06-01T14:00:00-04:00'', Aware (timedelta_hours 18)),
          (''2024-06-01T15:00:00-04:00'', Aware (timedelta_hours 19)),
          (''2024-06-01T16:00:00+00:00'', Aware (timedelta_hours 16)),
          (''2024-06-01T09:00:00'', Naive (timedelta_hours 9))] s),
      strptime_ymd = (\<lambda>s. map_of [(''2024-06-01'', 0), (''2024-06-02'', timedelta_hours 24)] s),
      localize = (\<lambda>w. w + timedelta_hours 4),
      strftime_time = (\<lambda>t. ''h:mm''),
      date_of = (\<lambda>t. (t - timedelta_hours 4) div timedelta_hours 24),
      day_window = (\<lambda>t. (''2024-06-01T04:00:00+00:00'', ''2024-06-02T03:59:59.999999+00:00''))\<rparr>"

definition work_calendar :: calendar where
  "work_calendar =
     \<lparr>cal_id = ''work'', cal_summary = ''Work'', cal_primary = False, backgroundColor = ''#ffffff''\<rparr>"

definition home_calendar :: calendar where
  "home_calendar =
     \<lparr>cal_id = ''home'', cal_summary = ''Home'', cal_primary = False, backgroundColor = ''#ffffff''\<rparr>"

text \<open>A raw record with the given id, start value and end dictionary.\<close>

definition raw :: "string \<Rightarrow> string \<Rightarrow> raw_time option \<Rightarrow> raw_event" where
  "raw i s en =
     \<lparr>raw_id = Some i, raw_summary = Some i, raw_description = None, raw_location = None,
      raw_start = Some \<lparr>dateTime = Some s, date = None\<rparr>, raw_end = en\<rparr>"

definition timed :: "string \<Rightarrow> raw_time option" where
  "timed s = Some \<lparr>dateTime = Some s, date = None\<rparr>"

text \<open>An event of the Timeline with the given id, start, end and status.\<close>

definition ev :: "string \<Rightarrow> datetime \<Rightarrow> datetime \<Rightarrow> status \<Rightarrow> event" where
  "ev i s e st =
     \<lparr>ev_id = i, title = i, description = [], location = [],
      start_datetime = s, end_datetime = e, is_all_day = False,
      calendar_name = ''Work'', calendar_color = ''#ffffff'',
      ev_status = st, formatted_time = ''h:mm - h:mm''\<rparr>"

text \<open>An all-day record, and an end dictionary with neither key.\<close>

definition all_day_raw :: "string \<Rightarrow> string \<Rightarrow> string \<Rightarrow> raw_event" where
  "all_day_raw i d e =
     \<lparr>raw_id = Some i, raw_summary = Some i, raw_description = None, raw_location = None,
      raw_start = Some \<lparr>dateTime = None, date = Some d\<rparr>,
      raw_end = Some \<lparr>dateTime = None, date = Some e\<rparr>\<rparr>"

definition no_end_value :: "raw_time option" where
  "no_end_value = Some \<lparr>dateTime = None, date = None\<rparr>"

text \<open>The value \<^verbatim>\<open>time_to_start\<close> of an event at a scan.\<close>

definition seconds_to_start :: "event \<Rightarrow> datetime \<Rightarrow> rat" where
  "seconds_to_start e now = total_seconds (start_datetime e - now)"

text \<open>A Timeline for a scan.\<close>

definition timeline :: "event list \<Rightarrow> calendar_service" where
  "timeline es = \<lparr>service_built = True, events = es, last_update = Some 0\<rparr>"

text \<open>A gateway that cannot be reached: authentication fails.\<close>

definition unreachable_gateway :: gateway where
  "unreachable_gateway =
     \<lparr>authenticate = False, calendarList_list = Inl OtherException,
      events_list = (\<lambda>c tmin tmax m. Inl OtherException)\<rparr>"

text \<open>Whether \<^verbatim>\<open>get_service\<close> returns a service.\<close>

definition service_available :: "gateway \<Rightarrow> calendar_service \<Rightarrow> bool" where
  "service_available G cs = (service_built cs \<or> authenticate G)"

text \<open>
  The loop over the calendars as \<^verbatim>\<open>get_today_events\<close> runs it once the service is
  there: the exception that leaves it, if any, and the accumulated \<^verbatim>\<open>all_events\<close>.
\<close>

definition refresh_fetch ::
  "settings \<Rightarrow> pylib \<Rightarrow> gateway \<Rightarrow> clock \<Rightarrow> nat \<Rightarrow> calendar_service \<Rightarrow>
     exn option \<times> event list \<times> nat \<times> log_entry list" where
  "refresh_fetch S L G clk n cs =
     fetch_calendars S L G clk (fst (day_window L (clk n))) (snd (day_window L (clk n))) (Suc n)
       (fst (get_calendar_list G (cs\<lparr>service_built := True\<rparr>)))"


text \<open>Gateways and states for the examples of the refresh.\<close>

definition raw_cal :: "string \<Rightarrow> string \<Rightarrow> raw_calendar" where
  "raw_cal i s = \<lparr>rc_id = Some i, rc_summary = Some s, rc_primary = None, rc_backgroundColor = None\<rparr>"

definition hour_raw :: "string \<Rightarrow> string \<Rightarrow> string \<Rightarrow> raw_event" where
  "hour_raw i s e = raw i s (timed e)"

definition list_failure_gateway :: gateway where
  "list_failure_gateway =
     \<lparr>authenticate = True, calendarList_list = Inl OtherException,
      events_list = (\<lambda>c tmin tmax m. Inr [])\<rparr>"

definition work_events :: "raw_event list" where
  "work_events =
     [raw ''w1'' ''2024-06-01T09:00:00-04:00'' (timed ''2024-06-01T10:00:00-04:00''),
      raw ''w2'' ''2024-06-01T11:00:00-04:00'' (timed ''2024-06-01T12:00:00-04:00''),
      raw ''w3'' ''2024-06-01T13:00:00-04:00'' (timed ''2024-06-01T14:00:00-04:00''),
      raw ''w4'' ''2024-06-01T15:00:00-04:00'' no_end_value]"

definition home_events :: "raw_event list" where
  "home_events =
     [raw ''h1'' ''2024-06-01T10:00:00-04:00'' (timed ''2024-06-01T11:00:00-04:00''),
      raw ''h2'' ''2024-06-01T12:00:00-04:00'' (timed ''2024-06-01T13:00:00-04:00''),
      raw ''h3'' ''2024-06-01T14:00:00-04:00'' (timed ''2024-06-01T15:00:00-04:00'')]"

definition two_calendars_gateway :: gateway where
  "two_calendars_gateway =
     \<lparr>authenticate = True,
      calendarList_list = Inr [raw_cal ''work'' ''Work'', raw_cal ''home'' ''Home''],
      events_list = (\<lambda>c tmin tmax m.
         if c = ''work'' then Inr (take m work_events)
         else if c = ''home'' then Inr (take m home_events)
         else Inl HttpError)\<rparr>"

definition timeout_gateway :: gateway where
  "timeout_gateway =
     \<lparr>authenticate = True,
      calendarList_list = Inr [raw_cal ''work'' ''Work'', raw_cal ''home'' ''Home''],
      events_list = (\<lambda>c tmin tmax m.
         if c = ''work'' then Inl OtherException
         else if c = ''home'' then Inr (take m home_events)
         else Inl HttpError)\<rparr>"

definition noon_clock :: clock where
  "noon_clock n = timedelta_hours 16 + seconds (int n)"

definition loaded_service :: calendar_service where
  "loaded_service =
     \<lparr>service_built = True,
      events = [ev ''a'' (timedelta_hours 17) (timedelta_hours 18) upcoming],
      last_update = Some (timedelta_hours 15)\<rparr>"

text \<open>The outcome of the loop over the calendars without its log, and the log.\<close>

definition fetch_outcome ::
  "exn option \<times> event list \<times> nat \<times> log_entry list \<Rightarrow> exn option \<times> event list \<times> nat" where
  "fetch_outcome r = (fst r, fst (snd r), fst (snd (snd r)))"

definition fetch_log :: "exn option \<times> event list \<times> nat \<times> log_entry list \<Rightarrow> log_entry list" where
  "fetch_log r = snd (snd (snd r))"

text \<open>A gateway whose first calendar answers with an HTTP error, and whose second holds a record that cannot be parsed.\<close>

definition http_error_gateway :: gateway where
  "http_error_gateway =
     \<lparr>authenticate = True,
      calendarList_list = Inr [raw_cal ''work'' ''Work'', raw_cal ''home'' ''Home''],
      events_list = (\<lambda>c tmin tmax m.
         if c = ''work'' then Inl HttpError
         else if c = ''home'' then
           Inr (take m
                  [raw ''h1'' ''2024-06-01T10:00:00-04:00'' (timed ''2024-06-01T11:00:00-04:00''),
                   raw ''g'' ''tomorrow'' no_end_value,
                   raw ''h2'' ''2024-06-01T12:00:00-04:00'' (timed ''2024-06-01T13:00:00-04:00'')])
         else Inl HttpError)\<rparr>"

text \<open>
  The key the rule engine computes for a record, and the invariant of the backlog with
  respect to a set of keys: no two queued records have the same pair, every queued and the
  active record has its key in the set, and the pair of the active record is not queued.
\<close>

definition key_of :: "notification \<Rightarrow> string" where
  "key_of r = notification_key (n_event r) (n_type r)"

definition ui_inv :: "ui_notification_manager \<Rightarrow> string set \<Rightarrow> bool" where
  "ui_inv u K =
     (distinct (map pair_of (notification_queue u)) \<and>
      (\<forall>r \<in> set (notification_queue u). key_of r \<in> K) \<and>
      (\<forall>r. ui_current_notification u = Some r \<longrightarrow>
         key_of r \<in> K \<and> pair_of r \<notin> pair_of ` set (notification_queue u)))"

definition backlog_inv :: "app \<Rightarrow> bool" where
  "backlog_inv a = ui_inv (ui a) (shown_notifications (manager a))"

text \<open>
  A session for the examples of the scheduler: one calendar with event \<open>a\<close> at 13:00:00
  and event \<open>b\<close> at 13:00:20; the refresh and the first scan happen at 12:59:15, the
  second scan 10 seconds later.
\<close>

definition alert_gateway :: gateway where
  "alert_gateway =
     \<lparr>authenticate = True,
      calendarList_list = Inr [raw_cal ''work'' ''Work''],
      events_list = (\<lambda>c tmin tmax m.
         if c = ''work'' then
           Inr (take m [raw ''a'' ''2024-06-01T13:00:00-04:00'' no_end_value,
                        raw ''b'' ''2024-06-01T13:00:20-04:00'' no_end_value])
         else Inl HttpError)\<rparr>"

definition session_clock :: clock where
  "session_clock n =
     (if n < 10 then timedelta_hours 17 - seconds 45 else timedelta_hours 17 - seconds 35)"

definition alert_a :: event where
  "alert_a = ev ''a'' (timedelta_hours 17) (timedelta_hours 18) upcoming"

definition alert_b :: event where
  "alert_b = ev ''b'' (timedelta_hours 17 + seconds 20) (timedelta_hours 18 + seconds 20) upcoming"

text \<open>
  The state of that session after the refresh, the first scan, the end of the fade-in and
  the second scan; and the four callbacks.
\<close>

definition queued_b_state :: app where
  "queued_b_state =
     \<lparr>calendar = \<lparr>service_built = True, events = [alert_a, alert_b],
                  last_update = Some (timedelta_hours 17 - seconds 45)\<rparr>,
      manager = \<lparr>shown_notifications = {''a_start'', ''b_start''},
                 current_notification =
                   Some \<lparr>n_event = alert_b, n_type = start,
                         n_timestamp = timedelta_hours 17 - seconds 35\<rparr>,
                 notification_start_time = Some (timedelta_hours 17 - seconds 35),
                 dismiss_timer = True\<rparr>,
      ui = \<lparr>widget = \<lparr>visible = True, opacity = 1, current_event = Some alert_a,
                       notification_type = Some start, fade_in_running = False,
                       fade_out_running = True, auto_dismiss_timer = False\<rparr>,
            notification_queue =
              [\<lparr>n_event = alert_b, n_type = start,
                n_timestamp = timedelta_hours 17 - seconds 35\<rparr>],
            ui_current_notification = None\<rparr>,
      window_events_shared = True,
      clock_reads = 15\<rparr>"

definition two_alerts_session :: "action list" where
  "two_alerts_session =
     [Refresh alert_gateway, Check_notifications, Fade_in_finished, Check_notifications]"

text \<open>The state of that session while alert \<open>a\<close> is on screen, before the second scan.\<close>

definition showing_a_state :: app where
  "showing_a_state =
     \<lparr>calendar = \<lparr>service_built = True, events = [alert_a, alert_b],
                  last_update = Some (timedelta_hours 17 - seconds 45)\<rparr>,
      manager = \<lparr>shown_notifications = {''a_start''},
                 current_notification =
                   Some \<lparr>n_event = alert_a, n_type = start,
                         n_timestamp = timedelta_hours 17 - seconds 45\<rparr>,
                 notification_start_time = Some (timedelta_hours 17 - seconds 45),
                 dismiss_timer = True\<rparr>,
      ui = \<lparr>widget = \<lparr>visible = True, opacity = 1, current_event = Some alert_a,
                       notification_type = Some start, fade_in_running = False,
                       fade_out_running = False, auto_dismiss_timer = True\<rparr>,
            notification_queue = [],
            ui_current_notification =
              Some \<lparr>n_event = alert_a, n_type = start,
                    n_timestamp = timedelta_hours 17 - seconds 45\<rparr>\<rparr>,
      window_events_shared = True,
      clock_reads = 10\<rparr>"

text \<open>A run in which every scan starts with the cache and the Timeline below the ceiling.\<close>

fun run_below_ceiling :: "settings \<Rightarrow> pylib \<Rightarrow> clock \<Rightarrow> action list \<Rightarrow> app \<Rightarrow> bool" where
  "run_below_ceiling S L clk [] a = True"
| "run_below_ceiling S L clk (act # acts) a =
     ((act = Check_notifications \<longrightarrow> below_ceiling a) \<and>
      run_below_ceiling S L clk acts (fst (step S L clk act a)))"

text \<open>
  A long session: 100 earlier alerts, each shown and dismissed in a round of callbacks
  (refresh, scan, end of the fade-in, timeout of the manager's dismiss timer, end of the
  fade-out), then the refresh of the session above. Earlier alert \<open>i\<close> has the id of
  \<open>i + 1\<close> letters \<open>x\<close> and starts at 13:00:00; the clock stays at 12:59:15 until the
  first scan that sees \<open>a\<close> and \<open>b\<close> is over, and is 10 seconds later from then on.
\<close>

definition earlier_id :: "nat \<Rightarrow> string" where
  "earlier_id i = replicate (Suc i) CHR ''x''"

definition earlier_alert :: "nat \<Rightarrow> event" where
  "earlier_alert i = ev (earlier_id i) (timedelta_hours 17) (timedelta_hours 18) upcoming"

definition earlier_gateway :: "nat \<Rightarrow> gateway" where
  "earlier_gateway i =
     \<lparr>authenticate = True,
      calendarList_list = Inr [raw_cal ''work'' ''Work''],
      events_list = (\<lambda>c tmin tmax m.
         if c = ''work'' then
           Inr (take m [raw (earlier_id i) ''2024-06-01T13:00:00-04:00'' no_end_value])
         else Inl HttpError)\<rparr>"

definition alert_round :: "nat \<Rightarrow> action list" where
  "alert_round i =
     [Refresh (earlier_gateway i), Check_notifications, Fade_in_finished,
      Dismiss_timer_timeout, Fade_out_finished]"

definition earlier_rounds :: "nat \<Rightarrow> action list" where
  "earlier_rounds n = concat (map alert_round [0..<n])"

definition long_session_clock :: clock where
  "long_session_clock n = session_clock (n - 900)"

text \<open>The keys of the earlier alerts, and the state after \<open>n\<close> rounds.\<close>

definition cache_key :: "nat \<Rightarrow> string" where
  "cache_key i = notification_key (earlier_alert i) start"

definition idle_state :: "nat \<Rightarrow> app" where
  "idle_state n =
     (if n = 0 then initial_app 0
      else
        \<lparr>calendar = \<lparr>service_built = True, events = [earlier_alert (n - 1)],
                     last_update = Some (timedelta_hours 17 - seconds 45)\<rparr>,
         manager = \<lparr>shown_notifications = cache_key ` {..<n}, current_notification = None,
                    notification_start_time = None, dismiss_timer = False\<rparr>,
         ui = \<lparr>widget = \<lparr>visible = False, opacity = 0,
                          current_event = Some (earlier_alert (n - 1)),
                          notification_type = Some start, fade_in_running = False,
                          fade_out_running = False, auto_dismiss_timer = False\<rparr>,
               notification_queue = [], ui_current_notification = None\<rparr>,
         window_events_shared = True,
         clock_reads = 9 * n\<rparr>)"

text \<open>
  The state after the 100 rounds and the refresh that loads \<open>a\<close> and \<open>b\<close>: the cache
  holds 100 keys and nothing is on screen.
\<close>

definition full_cache_state :: app where
  "full_cache_state =
     \<lparr>calendar = \<lparr>service_built = True, events = [alert_a, alert_b],
                  last_update = Some (timedelta_hours 17 - seconds 45)\<rparr>,
      manager = \<lparr>shown_notifications = cache_key ` {..<100}, current_notification = None,
                 notification_start_time = None, dismiss_timer = False\<rparr>,
      ui = \<lparr>widget = \<lparr>visible = False, opacity = 0, current_event = Some (earlier_alert 99),
                       notification_type = Some start, fade_in_running = False,
                       fade_out_running = False, auto_dismiss_timer = False\<rparr>,
            notification_queue = [], ui_current_notification = None\<rparr>,
      window_events_shared = True,
      clock_reads = 905\<rparr>"

text \<open>
  The two-alert session continued: the manager's dismiss timer runs out, the fade-out ends,
  the next drain tick promotes \<open>b\<close>, and its fade-in ends. Before the drain tick the
  overlay is hidden and \<open>b\<close> is still queued.
\<close>

definition faded_out_state :: app where
  "faded_out_state =
     fst (run default_settings sample_lib session_clock
            [Dismiss_timer_timeout, Fade_out_finished] queued_b_state)"

definition promoted_b_state :: app where
  "promoted_b_state =
     fst (run default_settings sample_lib session_clock
            [Process_queue, Fade_in_finished] faded_out_state)"

text \<open>A clock for a scan that finds \<open>a\<close> and \<open>b\<close> together, 35 seconds before \<open>a\<close> starts.\<close>

definition same_scan_clock :: clock where
  "same_scan_clock n = timedelta_hours 17 - seconds 35"

section \<open>Properties\<close>

subsection \<open>Status derivation\<close>

lemma update_statuses_loop_Cons:
  "fst (update_statuses_loop clk n m (e # es)) =
     e\<lparr>ev_status := get_event_status (clk n) (start_datetime e) (end_datetime e)\<rparr> #
     fst (update_statuses_loop clk (Suc n)
            (if ev_status e = current \<and>
                get_event_status (clk n) (start_datetime e) (end_datetime e) = past
             then True else m) es)"
  by (simp add: Let_def get_event_status_def split: prod.splits)

lemma update_statuses_loop_nth:
  "i < length es \<Longrightarrow>
   ev_status (fst (update_statuses_loop clk n m es) ! i) =
     get_event_status (clk (n + i)) (start_datetime (es ! i)) (end_datetime (es ! i))"
proof (induction es arbitrary: n m i)
  case Nil
  then show ?case by simp
next
  case (Cons e es)
  show ?case
  proof (cases i)
    case 0
    then show ?thesis
      by (simp only: update_statuses_loop_Cons) simp
  next
    case (Suc j)
    with Cons.prems have "j < length es" by simp
    from Cons.IH[OF this, of "Suc n"] Suc show ?thesis
      by (simp only: update_statuses_loop_Cons) simp
  qed
qed

lemma process_event_try_status:
  "process_event_try L now r cal = Inr (Some e) \<Longrightarrow>
   ev_status e = get_event_status now (start_datetime e) (end_datetime e)"
  unfolding process_event_try_def
  by (auto split: option.splits sum.splits if_splits prod.splits)

lemma process_event_status:
  "process_event L now r cal = (Some e, lg) \<Longrightarrow>
   ev_status e = get_event_status now (start_datetime e) (end_datetime e)"
  unfolding process_event_def
  by (auto split: sum.splits dest: process_event_try_status)

text \<open>
  C1. The status derived from a clock reading \<open>now\<close> is current exactly when
  \<open>start \<le> now \<le> end\<close>, upcoming exactly when \<open>now < start\<close>, and past otherwise; at
  \<open>now = start\<close> and at \<open>now = end\<close> an event (whose start is not after its end) is
  current. The status stored at normalization and the status stored by every status tick
  are this function of the clock reading made for the event.
\<close>

theorem status_derivation:
  "(get_event_status now s e = current \<longleftrightarrow> s \<le> now \<and> now \<le> e) \<and>
   (get_event_status now s e = upcoming \<longleftrightarrow> now < s) \<and>
   (get_event_status now s e = past \<longleftrightarrow> \<not> now < s \<and> \<not> (s \<le> now \<and> now \<le> e)) \<and>
   (s \<le> e \<longrightarrow> get_event_status s s e = current \<and> get_event_status e s e = current) \<and>
   (\<forall>x lg. process_event L now r cal = (Some x, lg) \<longrightarrow>
      ev_status x = get_event_status now (start_datetime x) (end_datetime x)) \<and>
   (\<forall>i < length es.
      ev_status (fst (update_event_statuses clk n es) ! i) =
        get_event_status (clk (n + i)) (start_datetime (es ! i)) (end_datetime (es ! i)))"
proof -
  have a: "get_event_status now s e = current \<longleftrightarrow> s \<le> now \<and> now \<le> e"
    by (simp add: get_event_status_def)
  have b: "get_event_status now s e = upcoming \<longleftrightarrow> now < s"
    by (simp add: get_event_status_def)
  have c: "get_event_status now s e = past \<longleftrightarrow> \<not> now < s \<and> \<not> (s \<le> now \<and> now \<le> e)"
    by (simp add: get_event_status_def)
  have d: "s \<le> e \<longrightarrow> get_event_status s s e = current \<and> get_event_status e s e = current"
    by (simp add: get_event_status_def)
  have f: "\<forall>i < length es.
      ev_status (fst (update_event_statuses clk n es) ! i) =
        get_event_status (clk (n + i)) (start_datetime (es ! i)) (end_datetime (es ! i))"
    by (auto simp: update_event_statuses_def update_statuses_loop_nth)
  have g: "\<forall>x lg. process_event L now r cal = (Some x, lg) \<longrightarrow>
      ev_status x = get_event_status now (start_datetime x) (end_datetime x)"
    using process_event_status by blast
  from a b c d f g show ?thesis by (intro conjI)
qed

lemmas sample_defs = sample_lib_def work_calendar_def home_calendar_def raw_def timed_def ev_def
  timedelta_hours_def seconds_def

lemma process_event_sample: "process_event sample_lib (timedelta_hours 13)
            (raw ''a'' ''2024-06-01T09:00:00-04:00'' (timed ''2024-06-01T10:00:00-04:00''))
            work_calendar = (Some (ev ''a'' (timedelta_hours 13) (timedelta_hours 14) current), [])"
  by (simp add: process_event_def process_event_try_def parse_start_def parse_end_def
      get_time_value_def replace_Z_def to_timezone_def format_event_time_def get_event_status_def
      sample_defs)

theorem status_derivation_witness:
  "get_event_status (timedelta_hours 13) (timedelta_hours 13) (timedelta_hours 14) = current \<and>
   get_event_status (timedelta_hours 14) (timedelta_hours 13) (timedelta_hours 14) = current \<and>
   map_option ev_status (fst (process_event sample_lib (timedelta_hours 13)
       (raw ''a'' ''2024-06-01T09:00:00-04:00'' (timed ''2024-06-01T10:00:00-04:00''))
       work_calendar)) = Some current \<and>
   ev_status (fst (update_event_statuses (\<lambda>n. timedelta_hours 15) 0
       [ev ''a'' (timedelta_hours 13) (timedelta_hours 14) current]) ! 0) = past"
proof -
  let ?r = "raw ''a'' ''2024-06-01T09:00:00-04:00'' (timed ''2024-06-01T10:00:00-04:00'')"
  let ?e = "ev ''a'' (timedelta_hours 13) (timedelta_hours 14) current"
  note th = status_derivation [of "timedelta_hours 13" "timedelta_hours 13" "timedelta_hours 14"
      sample_lib ?r work_calendar "[?e]" "\<lambda>n. timedelta_hours 15" 0]
  have le: "timedelta_hours 13 \<le> timedelta_hours 14"
    by (simp add: timedelta_hours_def)
  from th le have b: "get_event_status (timedelta_hours 13) (timedelta_hours 13) (timedelta_hours 14) = current"
    and c: "get_event_status (timedelta_hours 14) (timedelta_hours 13) (timedelta_hours 14) = current"
    by blast+
  from th process_event_sample have "ev_status ?e =
      get_event_status (timedelta_hours 13) (start_datetime ?e) (end_datetime ?e)"
    by blast
  then have d: "map_option ev_status (fst (process_event sample_lib (timedelta_hours 13) ?r
       work_calendar)) = Some current"
    by (simp add: process_event_sample ev_def)
  from th have "ev_status (fst (update_event_statuses (\<lambda>n. timedelta_hours 15) 0 [?e]) ! 0) =
      get_event_status (timedelta_hours 15) (start_datetime ([?e] ! 0)) (end_datetime ([?e] ! 0))"
    by simp
  then have f: "ev_status (fst (update_event_statuses (\<lambda>n. timedelta_hours 15) 0 [?e]) ! 0) = past"
    by (simp add: get_event_status_def ev_def timedelta_hours_def)
  from b c d f show ?thesis by (intro conjI)
qed

subsection \<open>Refresh never reports failure\<close>

lemma get_today_events_no_raise:
  "\<not> isl (fst (get_today_events S L G clk n cs))"
  by (simp add: get_today_events_def split: prod.splits sum.splits)

lemma refresh_events_unreachable:
  "refresh_events S L unreachable_gateway clk n
     \<lparr>service_built = False, events = es, last_update = lu\<rparr> =
   (True, \<lparr>service_built = False, events = es, last_update = lu\<rparr>, n,
    [Failed_to_get_calendar_service])"
  by (simp add: refresh_events_def get_today_events_def get_today_events_try_def
      get_service_def unreachable_gateway_def)

text \<open>
  C10. \<^verbatim>\<open>refresh_events\<close> returns \<^verbatim>\<open>True\<close> in every execution: \<^verbatim>\<open>get_today_events\<close>
  catches every exception and returns a list, so the branch that returns \<^verbatim>\<open>False\<close> is
  never taken, also when the fetch fails entirely (\<open>refresh_events_unreachable\<close>).
\<close>

theorem refresh_events_always_True:
  "fst (refresh_events S L G clk n cs) = True \<and>
   \<not> isl (fst (get_today_events S L G clk n cs)) \<and>
   (\<nexists>x. fst (get_today_events S L G clk n cs) = Inl x)"
proof -
  have a: "\<not> isl (fst (get_today_events S L G clk n cs))"
    by (rule get_today_events_no_raise)
  then have b: "\<nexists>x. fst (get_today_events S L G clk n cs) = Inl x"
    by (auto simp: isl_def)
  have "fst (refresh_events S L G clk n cs) = True"
    using b by (auto simp: refresh_events_def split: prod.splits sum.splits)
  with a b show ?thesis by blast
qed

subsection \<open>Default end time\<close>

lemma parse_end_default:
  "en = None \<or> (\<exists>e. en = Some e \<and> (e = [] \<or> CHR ''T'' \<notin> set e)) \<Longrightarrow>
   parse_end L en start_dt = Inr (start_dt + timedelta_hours 1)"
  by (auto simp: parse_end_def split: option.splits)

text \<open>
  C7 (as amended). A raw record with an id, a start value that parses, and an end
  dictionary whose value (\<^verbatim>\<open>dateTime\<close>, else \<^verbatim>\<open>date\<close>) is absent, empty or without
  a \<^verbatim>\<open>T\<close> is normalized with end = start + 1 hour: so for a timed start without an end
  value, and for an all-day record whose end is a bare date. A record without the end
  dictionary is discarded.
\<close>

theorem default_end_time:
  "(raw_start r = Some st \<and> get_time_value st = Some s \<and> s \<noteq> [] \<and>
    parse_start L s = Inr (start_dt, all_day) \<and> raw_id r = Some i \<and>
    raw_end r = Some en \<and>
    (get_time_value en = None \<or>
     (\<exists>e. get_time_value en = Some e \<and> (e = [] \<or> CHR ''T'' \<notin> set e)))
    \<longrightarrow> (\<exists>x. process_event L now r cal = (Some x, []) \<and>
           start_datetime x = start_dt \<and> is_all_day x = all_day \<and>
           end_datetime x = start_dt + timedelta_hours 1)) \<and>
   (raw_end r = None \<longrightarrow> fst (process_event L now r cal) = None)"
proof (intro conjI impI)
  assume a: "raw_start r = Some st \<and> get_time_value st = Some s \<and> s \<noteq> [] \<and>
    parse_start L s = Inr (start_dt, all_day) \<and> raw_id r = Some i \<and>
    raw_end r = Some en \<and>
    (get_time_value en = None \<or>
     (\<exists>e. get_time_value en = Some e \<and> (e = [] \<or> CHR ''T'' \<notin> set e)))"
  then have "parse_end L (get_time_value en) start_dt = Inr (start_dt + timedelta_hours 1)"
    by (intro parse_end_default) blast
  with a show "\<exists>x. process_event L now r cal = (Some x, []) \<and>
           start_datetime x = start_dt \<and> is_all_day x = all_day \<and>
           end_datetime x = start_dt + timedelta_hours 1"
    by (simp add: process_event_def process_event_try_def)
next
  assume "raw_end r = None"
  then show "fst (process_event L now r cal) = None"
    by (auto simp: process_event_def process_event_try_def
           split: option.splits sum.splits prod.splits)
qed

theorem default_end_time_witness:
  "map_option (\<lambda>x. (start_datetime x, end_datetime x, is_all_day x))
     (fst (process_event sample_lib (timedelta_hours 12)
        (raw ''a'' ''2024-06-01T09:00:00-04:00'' no_end_value) work_calendar)) =
     Some (timedelta_hours 13, timedelta_hours 14, False) \<and>
   map_option (\<lambda>x. (start_datetime x, end_datetime x, is_all_day x))
     (fst (process_event sample_lib (timedelta_hours 12)
        (all_day_raw ''b'' ''2024-06-01'' ''2024-06-02'') work_calendar)) =
     Some (timedelta_hours 4, timedelta_hours 5, True)"
proof -
  let ?r = "raw ''a'' ''2024-06-01T09:00:00-04:00'' no_end_value"
  let ?d = "all_day_raw ''b'' ''2024-06-01'' ''2024-06-02''"
  have "\<exists>x. process_event sample_lib (timedelta_hours 12) ?r work_calendar = (Some x, []) \<and>
           start_datetime x = timedelta_hours 13 \<and> is_all_day x = False \<and>
           end_datetime x = timedelta_hours 13 + timedelta_hours 1"
    using default_end_time [of ?r "\<lparr>dateTime = Some ''2024-06-01T09:00:00-04:00'', date = None\<rparr>"
        "''2024-06-01T09:00:00-04:00''" sample_lib "timedelta_hours 13" False "''a''"
        "\<lparr>dateTime = None, date = None\<rparr>" "timedelta_hours 12" work_calendar]
    by (simp add: raw_def no_end_value_def get_time_value_def parse_start_def replace_Z_def
        to_timezone_def sample_lib_def)
  then have a: "map_option (\<lambda>x. (start_datetime x, end_datetime x, is_all_day x))
     (fst (process_event sample_lib (timedelta_hours 12) ?r work_calendar)) =
     Some (timedelta_hours 13, timedelta_hours 14, False)"
    by (auto simp: timedelta_hours_def)
  have "\<exists>x. process_event sample_lib (timedelta_hours 12) ?d work_calendar = (Some x, []) \<and>
           start_datetime x = timedelta_hours 4 \<and> is_all_day x = True \<and>
           end_datetime x = timedelta_hours 4 + timedelta_hours 1"
    using default_end_time [of ?d "\<lparr>dateTime = None, date = Some ''2024-06-01''\<rparr>"
        "''2024-06-01''" sample_lib "timedelta_hours 4" True "''b''"
        "\<lparr>dateTime = None, date = Some ''2024-06-02''\<rparr>" "timedelta_hours 12" work_calendar]
    by (simp add: all_day_raw_def get_time_value_def parse_start_def
        sample_lib_def timedelta_hours_def)
  then have b: "map_option (\<lambda>x. (start_datetime x, end_datetime x, is_all_day x))
     (fst (process_event sample_lib (timedelta_hours 12) ?d work_calendar)) =
     Some (timedelta_hours 4, timedelta_hours 5, True)"
    by (auto simp: timedelta_hours_def)
  from a b show ?thesis by (intro conjI)
qed

text \<open>
  C7 as stated fails: a record with a timed start of 09:00 and no end field raises
  \<^verbatim>\<open>KeyError\<close> at \<^verbatim>\<open>event['end']\<close> and is discarded.
\<close>

theorem no_end_field_counterexample:
  "process_event sample_lib (timedelta_hours 12)
     (raw ''a'' ''2024-06-01T09:00:00-04:00'' None) work_calendar =
   (None, [Error_processing_event KeyError])"
  by (simp add: process_event_def process_event_try_def parse_start_def
      get_time_value_def replace_Z_def to_timezone_def sample_defs)



subsection \<open>Notification windows\<close>

lemma loop_start_iff:
  "(e, start) \<in> set (needing_notification_loop w now es) \<longleftrightarrow>
   e \<in> set es \<and> ev_status e \<noteq> past \<and> 0 \<le> seconds_to_start e now \<and> seconds_to_start e now \<le> 60"
  by (induction es) (auto simp: Let_def seconds_to_start_def)

lemma loop_warning_iff:
  "(e, warning) \<in> set (needing_notification_loop w now es) \<longleftrightarrow>
   e \<in> set es \<and> ev_status e \<noteq> past \<and>
   \<not> (0 \<le> seconds_to_start e now \<and> seconds_to_start e now \<le> 60) \<and>
   of_int (w * 60 - 60) \<le> seconds_to_start e now \<and> seconds_to_start e now \<le> of_int (w * 60 + 60)"
  by (induction es) (auto simp: Let_def seconds_to_start_def)

text \<open>
  C4 (as amended). On a scan, for an event of the Timeline whose stored status is not
  past, Start fires exactly when \<open>0 \<le> timeToStart \<le> 60\<close>, and Warning fires exactly when
  timeToStart is in the warning window and not in the start window (the warning test is
  the \<^verbatim>\<open>elif\<close> of the start test). When the warning lead is more than two minutes the
  windows are disjoint and Warning fires exactly in its window.
\<close>

theorem notification_windows:
  "((e, start) \<in> set (get_events_needing_notification cs w now) \<longleftrightarrow>
      e \<in> set (events cs) \<and> ev_status e \<noteq> past \<and>
      0 \<le> seconds_to_start e now \<and> seconds_to_start e now \<le> 60) \<and>
   ((e, warning) \<in> set (get_events_needing_notification cs w now) \<longleftrightarrow>
      e \<in> set (events cs) \<and> ev_status e \<noteq> past \<and>
      of_int (w * 60 - 60) \<le> seconds_to_start e now \<and> seconds_to_start e now \<le> of_int (w * 60 + 60) \<and>
      \<not> (0 \<le> seconds_to_start e now \<and> seconds_to_start e now \<le> 60)) \<and>
   (2 < w \<longrightarrow>
      ((e, warning) \<in> set (get_events_needing_notification cs w now) \<longleftrightarrow>
        e \<in> set (events cs) \<and> ev_status e \<noteq> past \<and>
        of_int (w * 60 - 60) \<le> seconds_to_start e now \<and>
        seconds_to_start e now \<le> of_int (w * 60 + 60)))"
proof -
  have a: "(e, start) \<in> set (get_events_needing_notification cs w now) \<longleftrightarrow>
      e \<in> set (events cs) \<and> ev_status e \<noteq> past \<and>
      0 \<le> seconds_to_start e now \<and> seconds_to_start e now \<le> 60"
    by (simp add: get_events_needing_notification_def loop_start_iff)
  have b: "(e, warning) \<in> set (get_events_needing_notification cs w now) \<longleftrightarrow>
      e \<in> set (events cs) \<and> ev_status e \<noteq> past \<and>
      of_int (w * 60 - 60) \<le> seconds_to_start e now \<and> seconds_to_start e now \<le> of_int (w * 60 + 60) \<and>
      \<not> (0 \<le> seconds_to_start e now \<and> seconds_to_start e now \<le> 60)"
    by (auto simp: get_events_needing_notification_def loop_warning_iff)
  have c: "2 < w \<longrightarrow>
      ((e, warning) \<in> set (get_events_needing_notification cs w now) \<longleftrightarrow>
        e \<in> set (events cs) \<and> ev_status e \<noteq> past \<and>
        of_int (w * 60 - 60) \<le> seconds_to_start e now \<and>
        seconds_to_start e now \<le> of_int (w * 60 + 60))"
  proof
    assume w: "2 < w"
    then have "(60::rat) < of_int (w * 60 - 60)"
    proof -
      from w have "120 \<le> w * 60 - 60" by simp
      then have "(of_int 120 :: rat) \<le> of_int (w * 60 - 60)" by (simp only: of_int_le_iff)
      then show ?thesis by simp
    qed
    then show "(e, warning) \<in> set (get_events_needing_notification cs w now) \<longleftrightarrow>
        e \<in> set (events cs) \<and> ev_status e \<noteq> past \<and>
        of_int (w * 60 - 60) \<le> seconds_to_start e now \<and>
        seconds_to_start e now \<le> of_int (w * 60 + 60)"
      unfolding b by auto
  qed
  from a b c show ?thesis by (intro conjI)
qed


theorem notification_windows_witness:
  "(ev ''a'' (seconds 570) (seconds 4170) upcoming, warning) \<in>
     set (get_events_needing_notification
            (timeline [ev ''a'' (seconds 570) (seconds 4170) upcoming,
                       ev ''b'' (seconds 720) (seconds 4320) upcoming]) 10 0) \<and>
   (ev ''b'' (seconds 720) (seconds 4320) upcoming, warning) \<notin>
     set (get_events_needing_notification
            (timeline [ev ''a'' (seconds 570) (seconds 4170) upcoming,
                       ev ''b'' (seconds 720) (seconds 4320) upcoming]) 10 0)"
proof -
  let ?a = "ev ''a'' (seconds 570) (seconds 4170) upcoming"
  let ?b = "ev ''b'' (seconds 720) (seconds 4320) upcoming"
  have w: "(2::int) < 10" by simp
  from notification_windows [of ?a "timeline [?a, ?b]" 10 0] w
  have a: "(?a, warning) \<in> set (get_events_needing_notification (timeline [?a, ?b]) 10 0)"
    by (simp add: seconds_to_start_def total_seconds_def timeline_def ev_def seconds_def)
  from notification_windows [of ?b "timeline [?a, ?b]" 10 0] w
  have b: "(?b, warning) \<notin> set (get_events_needing_notification (timeline [?a, ?b]) 10 0)"
    by (simp add: seconds_to_start_def total_seconds_def timeline_def ev_def seconds_def)
  from a b show ?thesis by (intro conjI)
qed

text \<open>
  C4 as stated fails for a warning lead of one minute: an event starting in 30 seconds is
  inside the warning window \<open>[0, 120]\<close>, and the scan fires Start only.
\<close>

theorem warning_window_counterexample:
  "of_int (1 * 60 - 60) \<le> seconds_to_start (ev ''a'' (seconds 30) (seconds 3630) upcoming) 0 \<and>
   seconds_to_start (ev ''a'' (seconds 30) (seconds 3630) upcoming) 0 \<le> of_int (1 * 60 + 60) \<and>
   ev_status (ev ''a'' (seconds 30) (seconds 3630) upcoming) \<noteq> past \<and>
   get_events_needing_notification
     (timeline [ev ''a'' (seconds 30) (seconds 3630) upcoming]) 1 0 =
     [(ev ''a'' (seconds 30) (seconds 3630) upcoming, start)]"
  by (simp add: get_events_needing_notification_def seconds_to_start_def total_seconds_def
      timeline_def ev_def seconds_def)

subsection \<open>Failed refresh\<close>

lemma get_service_eq:
  "get_service G cs =
     (service_available G cs, if service_available G cs then cs\<lparr>service_built := True\<rparr> else cs)"
  by (auto simp: get_service_def service_available_def)

lemma get_calendar_list_state:
  "service_built cs \<Longrightarrow> fst (snd (get_calendar_list G cs)) = cs"
  by (auto simp: get_calendar_list_def get_service_def split: sum.splits)

lemma get_today_events_unavailable:
  "\<not> service_available G cs \<Longrightarrow>
   get_today_events S L G clk n cs = (Inr [], cs, n, [Failed_to_get_calendar_service])"
  by (simp add: get_today_events_def get_today_events_try_def get_service_eq)

lemma get_today_events_abort:
  assumes "service_available G cs" and "refresh_fetch S L G clk n cs = (Some x, es, n', lg)"
  shows "get_today_events S L G clk n cs =
     (Inr [], cs\<lparr>service_built := True\<rparr>, n',
      snd (snd (get_calendar_list G (cs\<lparr>service_built := True\<rparr>))) @ lg @
      [Error_fetching_todays_events x])"
proof -
  obtain cals cs2 lg1 where g: "get_calendar_list G (cs\<lparr>service_built := True\<rparr>) = (cals, cs2, lg1)"
    by (cases "get_calendar_list G (cs\<lparr>service_built := True\<rparr>)") auto
  with get_calendar_list_state [of "cs\<lparr>service_built := True\<rparr>" G]
  have cs2: "cs2 = cs\<lparr>service_built := True\<rparr>" by simp
  from assms g cs2 show ?thesis
    by (simp add: get_today_events_def get_today_events_try_def get_service_eq refresh_fetch_def
        split_beta)
qed

lemma get_today_events_complete:
  assumes "service_available G cs" and "refresh_fetch S L G clk n cs = (None, es, n', lg)"
  shows "get_today_events S L G clk n cs =
     (Inr (take (MAX_EVENTS_DISPLAY S) (sort_key start_datetime es)),
      cs\<lparr>service_built := True,
         events := take (MAX_EVENTS_DISPLAY S) (sort_key start_datetime es),
         last_update := Some (clk n')\<rparr>, Suc n',
      snd (snd (get_calendar_list G (cs\<lparr>service_built := True\<rparr>))) @ lg @
      [Fetched_events (length (take (MAX_EVENTS_DISPLAY S) (sort_key start_datetime es)))])"
proof -
  obtain cals cs2 lg1 where g: "get_calendar_list G (cs\<lparr>service_built := True\<rparr>) = (cals, cs2, lg1)"
    by (cases "get_calendar_list G (cs\<lparr>service_built := True\<rparr>)") auto
  with get_calendar_list_state [of "cs\<lparr>service_built := True\<rparr>" G]
  have cs2: "cs2 = cs\<lparr>service_built := True\<rparr>" by simp
  from assms g cs2 show ?thesis
    by (simp add: get_today_events_def get_today_events_try_def get_service_eq refresh_fetch_def
        Let_def split_beta)
qed

lemma calendar_list_failure:
  "calendarList_list G = Inl x \<Longrightarrow> service_built cs \<Longrightarrow>
   get_calendar_list G cs = ([], cs, [Error_getting_calendar_list x])"
  by (simp add: get_calendar_list_def get_service_def)

lemma refresh_fetch_list_failure:
  "calendarList_list G = Inl x \<Longrightarrow> refresh_fetch S L G clk n cs = (None, [], Suc n, [])"
  by (simp add: refresh_fetch_def calendar_list_failure)

text \<open>
  C3 (as amended). A refresh never raises. When the gateway is unreachable (no service
  object) the call returns the empty list and leaves the Timeline and the time of the last
  refresh as they were; so does a refresh whose fetch loop is left by an exception. When
  the fetch of the calendar list fails, \<^verbatim>\<open>get_calendar_list\<close> answers the empty list:
  the call returns the empty list, replaces the Timeline by the empty sequence and records
  a new time of last refresh.
\<close>

theorem failed_refresh:
  "(\<not> service_available G cs \<longrightarrow>
      get_today_events S L G clk n cs = (Inr [], cs, n, [Failed_to_get_calendar_service])) \<and>
   (service_available G cs \<and> fst (refresh_fetch S L G clk n cs) \<noteq> None \<longrightarrow>
      fst (get_today_events S L G clk n cs) = Inr [] \<and>
      events (fst (snd (get_today_events S L G clk n cs))) = events cs \<and>
      last_update (fst (snd (get_today_events S L G clk n cs))) = last_update cs) \<and>
   (service_available G cs \<and> calendarList_list G = Inl x \<longrightarrow>
      fst (get_today_events S L G clk n cs) = Inr [] \<and>
      events (fst (snd (get_today_events S L G clk n cs))) = [] \<and>
      last_update (fst (snd (get_today_events S L G clk n cs))) = Some (clk (Suc n))) \<and>
   \<not> isl (fst (get_today_events S L G clk n cs))"
proof (intro conjI impI)
  assume "\<not> service_available G cs"
  then show "get_today_events S L G clk n cs = (Inr [], cs, n, [Failed_to_get_calendar_service])"
    by (rule get_today_events_unavailable)
next
  assume a: "service_available G cs \<and> fst (refresh_fetch S L G clk n cs) \<noteq> None"
  then obtain y es n' lg where rf: "refresh_fetch S L G clk n cs = (Some y, es, n', lg)"
    by (cases "refresh_fetch S L G clk n cs") auto
  from a have sa: "service_available G cs" by simp
  have e: "get_today_events S L G clk n cs =
     (Inr [], cs\<lparr>service_built := True\<rparr>, n',
      snd (snd (get_calendar_list G (cs\<lparr>service_built := True\<rparr>))) @ lg @
      [Error_fetching_todays_events y])"
    by (rule get_today_events_abort [OF sa rf])
  show "fst (get_today_events S L G clk n cs) = Inr []" by (simp add: e)
  show "events (fst (snd (get_today_events S L G clk n cs))) = events cs" by (simp add: e)
  show "last_update (fst (snd (get_today_events S L G clk n cs))) = last_update cs" by (simp add: e)
next
  assume a: "service_available G cs \<and> calendarList_list G = Inl x"
  then have rf: "refresh_fetch S L G clk n cs = (None, [], Suc n, [])"
    by (intro refresh_fetch_list_failure) auto
  from a have sa: "service_available G cs" by simp
  have e: "get_today_events S L G clk n cs =
     (Inr [], cs\<lparr>service_built := True, events := [], last_update := Some (clk (Suc n))\<rparr>,
      Suc (Suc n),
      snd (snd (get_calendar_list G (cs\<lparr>service_built := True\<rparr>))) @ [Fetched_events 0])"
    using get_today_events_complete [OF sa rf] by simp
  show "fst (get_today_events S L G clk n cs) = Inr []" by (simp add: e)
  show "events (fst (snd (get_today_events S L G clk n cs))) = []" by (simp add: e)
  show "last_update (fst (snd (get_today_events S L G clk n cs))) = Some (clk (Suc n))"
    by (simp add: e)
next
  show "\<not> isl (fst (get_today_events S L G clk n cs))"
    by (rule get_today_events_no_raise)
qed


lemmas normalizer_defs = process_event_def process_event_try_def parse_start_def parse_end_def
  get_time_value_def replace_Z_def to_timezone_def format_event_time_def get_event_status_def

lemmas refresh_defs = get_today_events_def get_today_events_try_def get_service_def
  get_calendar_list_def

text \<open>
  C3 as stated fails when the fetch of the calendar list fails: the stored events are
  replaced by the empty list and the time of the last refresh changes.
\<close>

theorem list_failure_counterexample:
  "get_today_events default_settings sample_lib list_failure_gateway noon_clock 0 loaded_service =
     (Inr [], loaded_service\<lparr>events := [], last_update := Some (noon_clock 1)\<rparr>, 2,
      [Error_getting_calendar_list OtherException, Fetched_events 0]) \<and>
   events loaded_service \<noteq> [] \<and> last_update loaded_service \<noteq> Some (noon_clock 1)"
  by (simp add: refresh_defs list_failure_gateway_def loaded_service_def sample_lib_def
      noon_clock_def timedelta_hours_def seconds_def)

lemma timeout_fetch:
  "refresh_fetch default_settings sample_lib timeout_gateway noon_clock 0 loaded_service =
     (Some OtherException, [], 1, [])"
  by (simp add: refresh_fetch_def get_calendar_list_def get_service_def timeout_gateway_def
      raw_cal_def loaded_service_def sample_lib_def)

theorem failed_refresh_witness:
  "get_today_events default_settings sample_lib unreachable_gateway noon_clock 0
       (loaded_service\<lparr>service_built := False\<rparr>) =
     (Inr [], loaded_service\<lparr>service_built := False\<rparr>, 0, [Failed_to_get_calendar_service]) \<and>
   fst (get_today_events default_settings sample_lib timeout_gateway noon_clock 0 loaded_service) =
     Inr [] \<and>
   events (fst (snd (get_today_events default_settings sample_lib timeout_gateway noon_clock 0
       loaded_service))) = events loaded_service \<and>
   last_update (fst (snd (get_today_events default_settings sample_lib timeout_gateway noon_clock 0
       loaded_service))) = last_update loaded_service \<and>
   events (fst (snd (get_today_events default_settings sample_lib list_failure_gateway noon_clock 0
       loaded_service))) = [] \<and>
   last_update (fst (snd (get_today_events default_settings sample_lib list_failure_gateway
       noon_clock 0 loaded_service))) = Some (noon_clock 1)"
proof -
  have u: "\<not> service_available unreachable_gateway (loaded_service\<lparr>service_built := False\<rparr>)"
    by (simp add: service_available_def unreachable_gateway_def)
  have t: "service_available timeout_gateway loaded_service \<and>
      fst (refresh_fetch default_settings sample_lib timeout_gateway noon_clock 0 loaded_service)
        \<noteq> None"
    by (simp add: timeout_fetch) (simp add: service_available_def loaded_service_def)
  have l: "service_available list_failure_gateway loaded_service \<and>
      calendarList_list list_failure_gateway = Inl OtherException"
    by (simp add: service_available_def loaded_service_def list_failure_gateway_def)
  from u failed_refresh [of unreachable_gateway "loaded_service\<lparr>service_built := False\<rparr>"
      default_settings sample_lib noon_clock 0]
  have a: "get_today_events default_settings sample_lib unreachable_gateway noon_clock 0
       (loaded_service\<lparr>service_built := False\<rparr>) =
     (Inr [], loaded_service\<lparr>service_built := False\<rparr>, 0, [Failed_to_get_calendar_service])"
    by blast
  from t failed_refresh [of timeout_gateway loaded_service default_settings sample_lib noon_clock 0]
  have b: "fst (get_today_events default_settings sample_lib timeout_gateway noon_clock 0
        loaded_service) = Inr [] \<and>
      events (fst (snd (get_today_events default_settings sample_lib timeout_gateway noon_clock 0
        loaded_service))) = events loaded_service \<and>
      last_update (fst (snd (get_today_events default_settings sample_lib timeout_gateway
        noon_clock 0 loaded_service))) = last_update loaded_service"
    by blast
  from l failed_refresh [of list_failure_gateway loaded_service default_settings sample_lib
      noon_clock 0 OtherException]
  have c: "events (fst (snd (get_today_events default_settings sample_lib list_failure_gateway
        noon_clock 0 loaded_service))) = [] \<and>
      last_update (fst (snd (get_today_events default_settings sample_lib list_failure_gateway
        noon_clock 0 loaded_service))) = Some (noon_clock (Suc 0))"
    by blast
  from a b c show ?thesis by simp
qed

subsection \<open>Sorting and truncation\<close>

lemma take_drop_sorted:
  "sorted (map f ys) \<Longrightarrow> \<forall>k \<in> set (take m ys). \<forall>d \<in> set (drop m ys). f k \<le> f d"
proof -
  assume "sorted (map f ys)"
  then have "sorted (map f (take m ys) @ map f (drop m ys))"
    by (simp only: map_append [symmetric] append_take_drop_id)
  then show ?thesis
    by (auto simp: sorted_append)
qed

text \<open>
  C6. After a refresh that runs to its end, the Timeline is the accumulated normalized
  events sorted by start (a stable sort) and cut to the configured maximum: it is sorted
  by start, has \<open>min max (number of accumulated events)\<close> entries, and the events cut
  off, together with the Timeline, are the accumulated events, each of them starting no
  earlier than every event kept. Seven raw events in two calendars with a maximum of five
  give the five earliest in ascending order.
\<close>

theorem timeline_sorted_truncated:
  "service_available G cs \<and> refresh_fetch S L G clk n cs = (None, all_events, n', lg) \<longrightarrow>
     fst (get_today_events S L G clk n cs) =
       Inr (events (fst (snd (get_today_events S L G clk n cs)))) \<and>
     events (fst (snd (get_today_events S L G clk n cs))) =
       take (MAX_EVENTS_DISPLAY S) (sort_key start_datetime all_events) \<and>
     sorted (map start_datetime (events (fst (snd (get_today_events S L G clk n cs))))) \<and>
     length (events (fst (snd (get_today_events S L G clk n cs)))) =
       min (MAX_EVENTS_DISPLAY S) (length all_events) \<and>
     mset (events (fst (snd (get_today_events S L G clk n cs))) @
           drop (MAX_EVENTS_DISPLAY S) (sort_key start_datetime all_events)) = mset all_events \<and>
     (\<forall>k \<in> set (events (fst (snd (get_today_events S L G clk n cs)))).
        \<forall>d \<in> set (drop (MAX_EVENTS_DISPLAY S) (sort_key start_datetime all_events)).
          start_datetime k \<le> start_datetime d)"
proof
  assume a: "service_available G cs \<and> refresh_fetch S L G clk n cs = (None, all_events, n', lg)"
  let ?tl = "take (MAX_EVENTS_DISPLAY S) (sort_key start_datetime all_events)"
  from a have e: "events (fst (snd (get_today_events S L G clk n cs))) = ?tl"
    and r: "fst (get_today_events S L G clk n cs) = Inr ?tl"
    by (simp_all add: get_today_events_complete)
  have s: "sorted (map start_datetime (sort_key start_datetime all_events))"
    by (rule sorted_sort_key)
  then have s1: "sorted (map start_datetime ?tl)"
    by (simp add: take_map [symmetric])
  have l: "length ?tl = min (MAX_EVENTS_DISPLAY S) (length all_events)"
    by simp
  have m: "mset (?tl @ drop (MAX_EVENTS_DISPLAY S) (sort_key start_datetime all_events)) =
      mset all_events"
    by simp
  from s have d: "\<forall>k \<in> set ?tl.
      \<forall>d \<in> set (drop (MAX_EVENTS_DISPLAY S) (sort_key start_datetime all_events)).
        start_datetime k \<le> start_datetime d"
    by (rule take_drop_sorted)
  from e r s1 l m d show "fst (get_today_events S L G clk n cs) =
       Inr (events (fst (snd (get_today_events S L G clk n cs)))) \<and>
     events (fst (snd (get_today_events S L G clk n cs))) =
       take (MAX_EVENTS_DISPLAY S) (sort_key start_datetime all_events) \<and>
     sorted (map start_datetime (events (fst (snd (get_today_events S L G clk n cs))))) \<and>
     length (events (fst (snd (get_today_events S L G clk n cs)))) =
       min (MAX_EVENTS_DISPLAY S) (length all_events) \<and>
     mset (events (fst (snd (get_today_events S L G clk n cs))) @
           drop (MAX_EVENTS_DISPLAY S) (sort_key start_datetime all_events)) = mset all_events \<and>
     (\<forall>k \<in> set (events (fst (snd (get_today_events S L G clk n cs)))).
        \<forall>d \<in> set (drop (MAX_EVENTS_DISPLAY S) (sort_key start_datetime all_events)).
          start_datetime k \<le> start_datetime d)"
    by (simp only:)
qed

lemma two_calendars_list:
  "get_calendar_list two_calendars_gateway (loaded_service\<lparr>service_built := True\<rparr>) =
     ([\<lparr>cal_id = ''work'', cal_summary = ''Work'', cal_primary = False, backgroundColor = ''#ffffff''\<rparr>,
       \<lparr>cal_id = ''home'', cal_summary = ''Home'', cal_primary = False, backgroundColor = ''#ffffff''\<rparr>],
      loaded_service\<lparr>service_built := True\<rparr>, [])"
  by (simp add: get_calendar_list_def get_service_def two_calendars_gateway_def raw_cal_def
      loaded_service_def)

lemma two_calendars_fetch:
  "map (\<lambda>e. (ev_id e, start_datetime e))
     (fst (snd (refresh_fetch default_settings sample_lib two_calendars_gateway noon_clock 0
        loaded_service))) =
     [(''w1'', timedelta_hours 13), (''w2'', timedelta_hours 15), (''w3'', timedelta_hours 17),
      (''w4'', timedelta_hours 19), (''h1'', timedelta_hours 14), (''h2'', timedelta_hours 16),
      (''h3'', timedelta_hours 18)] \<and>
   fst (refresh_fetch default_settings sample_lib two_calendars_gateway noon_clock 0
        loaded_service) = None"
  by (simp add: refresh_fetch_def two_calendars_list)
     (simp add: two_calendars_gateway_def default_settings_def work_events_def home_events_def
      normalizer_defs sample_defs no_end_value_def noon_clock_def)


lemma map_insort_key:
  "map g (insort_key (\<lambda>x. h (g x)) a xs) = insort_key h (g a) (map g xs)"
  by (induction xs) auto

lemma map_sort_key:
  "map g (sort_key (\<lambda>x. h (g x)) xs) = sort_key h (map g xs)"
  by (induction xs) (auto simp: map_insort_key)

theorem timeline_sorted_truncated_witness:
  "map (\<lambda>e. (ev_id e, start_datetime e))
     (events (fst (snd (get_today_events default_settings sample_lib two_calendars_gateway
        noon_clock 0 loaded_service)))) =
     [(''w1'', timedelta_hours 13), (''h1'', timedelta_hours 14), (''w2'', timedelta_hours 15),
      (''h2'', timedelta_hours 16), (''w3'', timedelta_hours 17)]"
proof -
  let ?F = "refresh_fetch default_settings sample_lib two_calendars_gateway noon_clock 0
        loaded_service"
  let ?g = "\<lambda>e. (ev_id e, start_datetime e)"
  have av: "service_available two_calendars_gateway loaded_service"
    by (simp add: service_available_def loaded_service_def)
  have f: "?F = (None, fst (snd ?F), fst (snd (snd ?F)), snd (snd (snd ?F)))"
    using two_calendars_fetch by (cases ?F) auto
  from timeline_sorted_truncated [of two_calendars_gateway loaded_service default_settings
      sample_lib noon_clock 0 "fst (snd ?F)" "fst (snd (snd ?F))" "snd (snd (snd ?F))"] av f
  have "events (fst (snd (get_today_events default_settings sample_lib two_calendars_gateway
        noon_clock 0 loaded_service))) =
      take (MAX_EVENTS_DISPLAY default_settings) (sort_key start_datetime (fst (snd ?F)))"
    by blast
  then have "map ?g (events (fst (snd (get_today_events default_settings sample_lib
        two_calendars_gateway noon_clock 0 loaded_service)))) =
      take 5 (sort_key snd (map ?g (fst (snd ?F))))"
    using map_sort_key [of ?g snd "fst (snd ?F)"]
    by (simp add: default_settings_def take_map [symmetric])
  also have "\<dots> = [(''w1'', timedelta_hours 13), (''h1'', timedelta_hours 14),
      (''w2'', timedelta_hours 15), (''h2'', timedelta_hours 16), (''w3'', timedelta_hours 17)]"
    using two_calendars_fetch by (simp add: timedelta_hours_def)
  finally show ?thesis .
qed

subsection \<open>Containment of errors\<close>

lemma process_event_None_any_clock:
  "fst (process_event L now r cal) = None \<Longrightarrow> fst (process_event L now' r cal) = None"
  by (auto simp: process_event_def process_event_try_def
      split: option.splits sum.splits if_splits prod.splits)

lemma process_events_Cons_None:
  "fst (process_event L (clk n) r cal) = None \<Longrightarrow>
   process_events L clk n cal (r # rs) =
     (fst (process_events L clk n cal rs), fst (snd (process_events L clk n cal rs)),
      snd (process_event L (clk n) r cal) @ snd (snd (process_events L clk n cal rs)))"
  by (cases "process_event L (clk n) r cal") (auto simp: split_beta)

lemma process_events_skip:
  "fst (process_event L now r cal) = None \<Longrightarrow>
   fst (process_events L clk n cal (xs @ r # ys)) = fst (process_events L clk n cal (xs @ ys)) \<and>
   fst (snd (process_events L clk n cal (xs @ r # ys))) =
     fst (snd (process_events L clk n cal (xs @ ys)))"
proof (induction xs arbitrary: n)
  case Nil
  then have "fst (process_event L (clk n) r cal) = None"
    by (rule process_event_None_any_clock)
  then show ?case by (simp add: process_events_Cons_None del: process_events.simps)
next
  case (Cons x xs)
  then show ?case
    by (cases "process_event L (clk n) x cal") (auto simp: split_beta split: option.splits)
qed

lemma fetch_calendars_skip:
  "events_list G (cal_id c) tmin tmax (MAX_EVENTS_DISPLAY S) = Inl HttpError \<Longrightarrow>
   fetch_outcome (fetch_calendars S L G clk tmin tmax n (cs1 @ c # cs2)) =
   fetch_outcome (fetch_calendars S L G clk tmin tmax n (cs1 @ cs2))"
proof (induction cs1 arbitrary: n)
  case Nil
  then show ?case by (simp add: fetch_outcome_def split_beta)
next
  case (Cons a cs1)
  then show ?case
    by (cases "events_list G (cal_id a) tmin tmax (MAX_EVENTS_DISPLAY S)")
       (auto simp: fetch_outcome_def split_beta)
qed

lemma fetch_calendars_logged:
  "events_list G (cal_id c) tmin tmax (MAX_EVENTS_DISPLAY S) = Inl HttpError \<Longrightarrow>
   c \<in> set cals \<Longrightarrow>
   fst (fetch_calendars S L G clk tmin tmax n cals) = None \<Longrightarrow>
   Error_fetching_events_from_calendar (cal_summary c) HttpError
     \<in> set (fetch_log (fetch_calendars S L G clk tmin tmax n cals))"
proof (induction cals arbitrary: n)
  case Nil
  then show ?case by simp
next
  case (Cons a cals)
  then show ?case
    by (cases "events_list G (cal_id a) tmin tmax (MAX_EVENTS_DISPLAY S)")
       (auto simp: fetch_log_def split_beta split: if_splits)
qed

lemma fetch_calendars_None_iff:
  "fst (fetch_calendars S L G clk tmin tmax n cals) = None \<longleftrightarrow>
   (\<forall>c \<in> set cals. \<forall>x. events_list G (cal_id c) tmin tmax (MAX_EVENTS_DISPLAY S) = Inl x
       \<longrightarrow> x = HttpError)"
proof (induction cals arbitrary: n)
  case Nil
  then show ?case by simp
next
  case (Cons a cals)
  then show ?case
    by (cases "events_list G (cal_id a) tmin tmax (MAX_EVENTS_DISPLAY S)")
       (auto simp: split_beta)
qed

lemma silent_discard:
  "no_start_value r \<Longrightarrow> process_event L now r cal = (None, [])"
  by (auto simp: no_start_value_def process_event_def process_event_try_def
      split: option.splits)

lemma logged_discard:
  "fst (process_event L now r cal) = None \<Longrightarrow> \<not> no_start_value r \<Longrightarrow>
   \<exists>x. snd (process_event L now r cal) = [Error_processing_event x]"
  by (auto simp: no_start_value_def process_event_def process_event_try_def
      split: option.splits sum.splits if_splits prod.splits)

lemma no_start_dictionary:
  "raw_start r = None \<Longrightarrow> process_event L now r cal = (None, [Error_processing_event KeyError])"
  by (simp add: process_event_def process_event_try_def)

lemma start_not_parsed:
  "raw_start r = Some st \<Longrightarrow> get_time_value st = Some s \<Longrightarrow> s \<noteq> [] \<Longrightarrow>
   parse_start L s = Inl x \<Longrightarrow>
   process_event L now r cal = (None, [Error_processing_event x])"
  by (simp add: process_event_def process_event_try_def)

text \<open>
  C9 (as amended). An \<^verbatim>\<open>HttpError\<close> of one calendar's fetch is contained: the loop
  gives the events it gives without that calendar, and logs the error. A record that is
  not normalized is contained: the records around it are processed as without it. A
  record whose start dictionary has no value is dropped without a log line; every other
  discarded record is logged with the exception it raised (a \<^verbatim>\<open>KeyError\<close> without a
  start dictionary, the parser's exception for a start value that does not parse). The
  loop is left exactly when some calendar's fetch raises an exception that is not an
  \<^verbatim>\<open>HttpError\<close>, and then the refresh is aborted (empty result, Timeline kept); so it
  is when no service object is obtained. A failure of the calendar list does not abort
  the cycle: it runs with no calendars.
\<close>

theorem error_containment:
  "(events_list G (cal_id c) tmin tmax (MAX_EVENTS_DISPLAY S) = Inl HttpError \<longrightarrow>
      fetch_outcome (fetch_calendars S L G clk tmin tmax n (cs1 @ c # cs2)) =
        fetch_outcome (fetch_calendars S L G clk tmin tmax n (cs1 @ cs2)) \<and>
      (fst (fetch_calendars S L G clk tmin tmax n (cs1 @ c # cs2)) = None \<longrightarrow>
         Error_fetching_events_from_calendar (cal_summary c) HttpError
           \<in> set (fetch_log (fetch_calendars S L G clk tmin tmax n (cs1 @ c # cs2))))) \<and>
   (fst (process_event L now r cal) = None \<longrightarrow>
      fst (process_events L clk n cal (xs @ r # ys)) = fst (process_events L clk n cal (xs @ ys)) \<and>
      fst (snd (process_events L clk n cal (xs @ r # ys))) =
        fst (snd (process_events L clk n cal (xs @ ys)))) \<and>
   (no_start_value r \<longrightarrow> process_event L now r cal = (None, [])) \<and>
   (fst (process_event L now r cal) = None \<and> \<not> no_start_value r \<longrightarrow>
      (\<exists>y. snd (process_event L now r cal) = [Error_processing_event y])) \<and>
   (raw_start r = None \<longrightarrow>
      process_event L now r cal = (None, [Error_processing_event KeyError])) \<and>
   (raw_start r = Some st \<and> get_time_value st = Some s \<and> s \<noteq> [] \<and> parse_start L s = Inl x
      \<longrightarrow> process_event L now r cal = (None, [Error_processing_event x])) \<and>
   (fst (fetch_calendars S L G clk tmin tmax n cals) = None \<longleftrightarrow>
      (\<forall>a \<in> set cals. \<forall>y. events_list G (cal_id a) tmin tmax (MAX_EVENTS_DISPLAY S) = Inl y
          \<longrightarrow> y = HttpError)) \<and>
   (service_available G cs \<and> fst (refresh_fetch S L G clk n cs) \<noteq> None \<longrightarrow>
      fst (get_today_events S L G clk n cs) = Inr [] \<and>
      events (fst (snd (get_today_events S L G clk n cs))) = events cs \<and>
      last_update (fst (snd (get_today_events S L G clk n cs))) = last_update cs) \<and>
   (\<not> service_available G cs \<longrightarrow>
      get_today_events S L G clk n cs = (Inr [], cs, n, [Failed_to_get_calendar_service])) \<and>
   (calendarList_list G = Inl x \<longrightarrow> fst (refresh_fetch S L G clk n cs) = None)"
proof (intro conjI impI)
  assume h: "events_list G (cal_id c) tmin tmax (MAX_EVENTS_DISPLAY S) = Inl HttpError"
  then show "fetch_outcome (fetch_calendars S L G clk tmin tmax n (cs1 @ c # cs2)) =
        fetch_outcome (fetch_calendars S L G clk tmin tmax n (cs1 @ cs2))"
    by (rule fetch_calendars_skip)
  assume "fst (fetch_calendars S L G clk tmin tmax n (cs1 @ c # cs2)) = None"
  with h show "Error_fetching_events_from_calendar (cal_summary c) HttpError
           \<in> set (fetch_log (fetch_calendars S L G clk tmin tmax n (cs1 @ c # cs2)))"
    by (intro fetch_calendars_logged) auto
next
  assume p: "fst (process_event L now r cal) = None"
  then show "fst (process_events L clk n cal (xs @ r # ys)) =
      fst (process_events L clk n cal (xs @ ys))"
    by (simp add: process_events_skip del: process_events.simps)
  from p show "fst (snd (process_events L clk n cal (xs @ r # ys))) =
        fst (snd (process_events L clk n cal (xs @ ys)))"
    by (simp add: process_events_skip del: process_events.simps)
next
  assume "no_start_value r"
  then show "process_event L now r cal = (None, [])" by (rule silent_discard)
next
  assume "fst (process_event L now r cal) = None \<and> \<not> no_start_value r"
  then show "\<exists>y. snd (process_event L now r cal) = [Error_processing_event y]"
    by (simp add: logged_discard)
next
  assume "raw_start r = None"
  then show "process_event L now r cal = (None, [Error_processing_event KeyError])"
    by (rule no_start_dictionary)
next
  assume "raw_start r = Some st \<and> get_time_value st = Some s \<and> s \<noteq> [] \<and> parse_start L s = Inl x"
  then show "process_event L now r cal = (None, [Error_processing_event x])"
    by (simp add: start_not_parsed)
next
  show "fst (fetch_calendars S L G clk tmin tmax n cals) = None \<longleftrightarrow>
      (\<forall>a \<in> set cals. \<forall>y. events_list G (cal_id a) tmin tmax (MAX_EVENTS_DISPLAY S) = Inl y
          \<longrightarrow> y = HttpError)"
    by (rule fetch_calendars_None_iff)
next
  assume a: "service_available G cs \<and> fst (refresh_fetch S L G clk n cs) \<noteq> None"
  then obtain y es n' lg where rf: "refresh_fetch S L G clk n cs = (Some y, es, n', lg)"
    by (cases "refresh_fetch S L G clk n cs") auto
  from a have sa: "service_available G cs" by simp
  note e = get_today_events_abort [OF sa rf]
  show "fst (get_today_events S L G clk n cs) = Inr []" by (simp add: e)
  show "events (fst (snd (get_today_events S L G clk n cs))) = events cs" by (simp add: e)
  show "last_update (fst (snd (get_today_events S L G clk n cs))) = last_update cs"
    by (simp add: e)
next
  assume "\<not> service_available G cs"
  then show "get_today_events S L G clk n cs = (Inr [], cs, n, [Failed_to_get_calendar_service])"
    by (rule get_today_events_unavailable)
next
  assume "calendarList_list G = Inl x"
  then show "fst (refresh_fetch S L G clk n cs) = None"
    by (simp add: refresh_fetch_list_failure)
qed

text \<open>
  C9 as stated fails: the calendar list is fetched, the fetch of the first calendar raises
  an exception that is not an \<^verbatim>\<open>HttpError\<close>, and the refresh ends there; the second
  calendar, whose fetch would succeed, is not processed.
\<close>

theorem error_containment_counterexample:
  "fst (get_calendar_list timeout_gateway loaded_service) = [work_calendar, home_calendar] \<and>
   events_list timeout_gateway ''work'' ''2024-06-01T04:00:00+00:00''
       ''2024-06-02T03:59:59.999999+00:00'' 5 = Inl OtherException \<and>
   events_list timeout_gateway ''home'' ''2024-06-01T04:00:00+00:00''
       ''2024-06-02T03:59:59.999999+00:00'' 5 = Inr home_events \<and>
   get_today_events default_settings sample_lib timeout_gateway noon_clock 0 loaded_service =
     (Inr [], loaded_service, 1, [Error_fetching_todays_events OtherException])"
  by (simp add: refresh_defs timeout_gateway_def raw_cal_def loaded_service_def
      work_calendar_def home_calendar_def home_events_def default_settings_def sample_lib_def)

theorem error_containment_witness:
  "fst (fetch_calendars default_settings sample_lib http_error_gateway noon_clock
          ''2024-06-01T04:00:00+00:00'' ''2024-06-02T03:59:59.999999+00:00'' 1
          [work_calendar, home_calendar]) = None \<and>
   map ev_id (fst (snd (fetch_calendars default_settings sample_lib http_error_gateway noon_clock
          ''2024-06-01T04:00:00+00:00'' ''2024-06-02T03:59:59.999999+00:00'' 1
          [work_calendar, home_calendar]))) = [''h1'', ''h2''] \<and>
   Error_fetching_events_from_calendar ''Work'' HttpError
     \<in> set (fetch_log (fetch_calendars default_settings sample_lib http_error_gateway noon_clock
          ''2024-06-01T04:00:00+00:00'' ''2024-06-02T03:59:59.999999+00:00'' 1
          [work_calendar, home_calendar])) \<and>
   process_event sample_lib (noon_clock 2) (raw ''g'' ''tomorrow'' no_end_value) home_calendar =
     (None, [Error_processing_event ValueError]) \<and>
   no_start_value (raw ''n'' [] no_end_value) \<and>
   process_event sample_lib (noon_clock 2) (raw ''n'' [] no_end_value) home_calendar =
     (None, []) \<and>
   map ev_id (fst (process_events sample_lib noon_clock 2 home_calendar
     [hour_raw ''h1'' ''2024-06-01T10:00:00-04:00'' ''2024-06-01T11:00:00-04:00'',
      raw ''n'' [] no_end_value,
      hour_raw ''h2'' ''2024-06-01T12:00:00-04:00'' ''2024-06-01T13:00:00-04:00''])) =
     [''h1'', ''h2''] \<and>
   process_event sample_lib (noon_clock 2)
       ((raw ''k'' ''2024-06-01T10:00:00-04:00'' no_end_value)\<lparr>raw_start := None\<rparr>)
       home_calendar =
     (None, [Error_processing_event KeyError]) \<and>
   get_today_events default_settings sample_lib unreachable_gateway noon_clock 0
       (loaded_service\<lparr>service_built := False\<rparr>) =
     (Inr [], loaded_service\<lparr>service_built := False\<rparr>, 0, [Failed_to_get_calendar_service]) \<and>
   fst (get_today_events default_settings sample_lib timeout_gateway noon_clock 0 loaded_service) =
     Inr [] \<and>
   events (fst (snd (get_today_events default_settings sample_lib timeout_gateway noon_clock 0
       loaded_service))) = events loaded_service \<and>
   fst (refresh_fetch default_settings sample_lib list_failure_gateway noon_clock 0
       loaded_service) = None"
proof -
  let ?f = "fetch_calendars default_settings sample_lib http_error_gateway noon_clock
          ''2024-06-01T04:00:00+00:00'' ''2024-06-02T03:59:59.999999+00:00'' 1"
  let ?g = "raw ''g'' ''tomorrow'' no_end_value"
  let ?n = "raw ''n'' [] no_end_value"
  let ?k = "(raw ''k'' ''2024-06-01T10:00:00-04:00'' no_end_value)\<lparr>raw_start := None\<rparr>"
  let ?h1 = "hour_raw ''h1'' ''2024-06-01T10:00:00-04:00'' ''2024-06-01T11:00:00-04:00''"
  let ?h2 = "hour_raw ''h2'' ''2024-06-01T12:00:00-04:00'' ''2024-06-01T13:00:00-04:00''"
  note th = error_containment [where G = http_error_gateway and c = work_calendar
      and tmin = "''2024-06-01T04:00:00+00:00''" and tmax = "''2024-06-02T03:59:59.999999+00:00''"
      and S = default_settings and L = sample_lib and clk = noon_clock and n = 1
      and ?cs1.0 = "[]" and ?cs2.0 = "[home_calendar]" and now = "noon_clock 2" and r = ?g
      and cal = home_calendar and st = "\<lparr>dateTime = Some ''tomorrow'', date = None\<rparr>"
      and s = "''tomorrow''" and x = ValueError]
  note tn = error_containment [where L = sample_lib and clk = noon_clock and n = 2
      and now = "noon_clock 2" and r = ?n and cal = home_calendar and xs = "[?h1]"
      and ys = "[?h2]"]
  note tk = error_containment [where L = sample_lib and now = "noon_clock 2" and r = ?k
      and cal = home_calendar]
  note tu = error_containment [where G = unreachable_gateway
      and cs = "loaded_service\<lparr>service_built := False\<rparr>" and S = default_settings
      and L = sample_lib and clk = noon_clock and n = 0]
  note tt = error_containment [where G = timeout_gateway and cs = loaded_service
      and S = default_settings and L = sample_lib and clk = noon_clock and n = 0]
  note tf = error_containment [where G = list_failure_gateway and cs = loaded_service
      and S = default_settings and L = sample_lib and clk = noon_clock and n = 0
      and x = OtherException]
  have h: "events_list http_error_gateway (cal_id work_calendar) ''2024-06-01T04:00:00+00:00''
      ''2024-06-02T03:59:59.999999+00:00'' (MAX_EVENTS_DISPLAY default_settings) = Inl HttpError"
    by (simp add: http_error_gateway_def work_calendar_def)
  have home: "fst (?f [home_calendar]) = None \<and>
      map ev_id (fst (snd (?f [home_calendar]))) = [''h1'', ''h2'']"
    by (simp add: http_error_gateway_def default_settings_def
        normalizer_defs sample_defs no_end_value_def noon_clock_def)
  from th h have o: "fetch_outcome (?f [work_calendar, home_calendar]) =
      fetch_outcome (?f [home_calendar])"
    by simp
  then have a: "fst (?f [work_calendar, home_calendar]) = None"
    and b: "map ev_id (fst (snd (?f [work_calendar, home_calendar]))) = [''h1'', ''h2'']"
    using home by (simp_all add: fetch_outcome_def)
  from th h a have c: "Error_fetching_events_from_calendar (cal_summary work_calendar) HttpError
     \<in> set (fetch_log (?f [work_calendar, home_calendar]))"
    by simp
  have g: "raw_start ?g = Some \<lparr>dateTime = Some ''tomorrow'', date = None\<rparr> \<and>
      get_time_value \<lparr>dateTime = Some ''tomorrow'', date = None\<rparr> = Some ''tomorrow'' \<and>
      ''tomorrow'' \<noteq> [] \<and> parse_start sample_lib ''tomorrow'' = Inl ValueError"
    by (simp add: raw_def get_time_value_def parse_start_def sample_lib_def)
  from th g have d: "process_event sample_lib (noon_clock 2) ?g home_calendar =
      (None, [Error_processing_event ValueError])"
    by blast
  have ns: "no_start_value ?n"
    by (simp add: no_start_value_def raw_def get_time_value_def)
  from tn ns have e: "process_event sample_lib (noon_clock 2) ?n home_calendar = (None, [])"
    by blast
  then have "fst (process_event sample_lib (noon_clock 2) ?n home_calendar) = None" by simp
  with tn have "fst (process_events sample_lib noon_clock 2 home_calendar ([?h1] @ ?n # [?h2])) =
      fst (process_events sample_lib noon_clock 2 home_calendar ([?h1] @ [?h2]))"
    by blast
  moreover have "map ev_id (fst (process_events sample_lib noon_clock 2 home_calendar
      ([?h1] @ [?h2]))) = [''h1'', ''h2'']"
    by (simp add: normalizer_defs sample_defs hour_raw_def timed_def noon_clock_def)
  ultimately have f: "map ev_id (fst (process_events sample_lib noon_clock 2 home_calendar
      [?h1, ?n, ?h2])) = [''h1'', ''h2'']"
    by simp
  have "raw_start ?k = None" by simp
  with tk have k: "process_event sample_lib (noon_clock 2) ?k home_calendar =
      (None, [Error_processing_event KeyError])"
    by blast
  have "\<not> service_available unreachable_gateway (loaded_service\<lparr>service_built := False\<rparr>)"
    by (simp add: service_available_def unreachable_gateway_def)
  with tu have u: "get_today_events default_settings sample_lib unreachable_gateway noon_clock 0
       (loaded_service\<lparr>service_built := False\<rparr>) =
     (Inr [], loaded_service\<lparr>service_built := False\<rparr>, 0, [Failed_to_get_calendar_service])"
    by blast
  have "service_available timeout_gateway loaded_service \<and>
      fst (refresh_fetch default_settings sample_lib timeout_gateway noon_clock 0 loaded_service)
        \<noteq> None"
    by (simp add: timeout_fetch) (simp add: service_available_def loaded_service_def)
  with tt have t: "fst (get_today_events default_settings sample_lib timeout_gateway noon_clock 0
        loaded_service) = Inr [] \<and>
      events (fst (snd (get_today_events default_settings sample_lib timeout_gateway noon_clock 0
       loaded_service))) = events loaded_service"
    by blast
  have "calendarList_list list_failure_gateway = Inl OtherException"
    by (simp add: list_failure_gateway_def)
  with tf have l: "fst (refresh_fetch default_settings sample_lib list_failure_gateway noon_clock 0
       loaded_service) = None"
    by blast
  from a b c d ns e f k u t l show ?thesis by (simp add: work_calendar_def)
qed

subsection \<open>The backlog invariant\<close>

lemma pair_key: "pair_of r = pair_of r' \<Longrightarrow> key_of r = key_of r'"
  by (simp add: pair_of_def key_of_def notification_key_def)

lemma ui_inv_widget [simp]: "ui_inv (u\<lparr>widget := w\<rparr>) K = ui_inv u K"
  by (simp add: ui_inv_def)

lemma ui_inv_insert: "ui_inv u K \<Longrightarrow> ui_inv u (insert x K)"
  by (auto simp: ui_inv_def)

lemma ui_inv_dismissed: "ui_inv u K \<Longrightarrow> ui_inv (on_notification_dismissed u) K"
  by (auto simp: ui_inv_def on_notification_dismissed_def)

lemma ui_inv_dismiss_current: "ui_inv u K \<Longrightarrow> ui_inv (dismiss_current u) K"
  by (auto simp: dismiss_current_def intro: ui_inv_dismissed)

lemma ui_inv_show:
  assumes "ui_inv u K" and "notification_key e k \<notin> K"
  shows "ui_inv (fst (ui_show_notification clk n u e k)) (insert (notification_key e k) K)"
proof -
  let ?r = "\<lparr>n_event = e, n_type = k, n_timestamp = clk n\<rparr>"
  have kr: "key_of ?r = notification_key e k" by (simp add: key_of_def)
  from assms have fresh: "\<forall>q \<in> set (notification_queue u). pair_of q \<noteq> pair_of ?r"
    using pair_key kr by (metis ui_inv_def)
  from assms have cur: "\<forall>q. ui_current_notification u = Some q \<longrightarrow> pair_of q \<noteq> pair_of ?r"
    using pair_key kr by (metis ui_inv_def)
  show ?thesis
  proof (cases "is_showing (widget u)")
    case True
    with assms fresh cur kr show ?thesis
      by (auto simp: ui_show_notification_def Let_def ui_inv_def)
  next
    case False
    with assms fresh cur kr show ?thesis
      by (auto simp: ui_show_notification_def Let_def ui_inv_def split_beta)
  qed
qed

lemma ui_inv_process_queue: "ui_inv u K \<Longrightarrow> ui_inv (fst (process_queue n u)) K"
  by (cases "notification_queue u") (auto simp: process_queue_def ui_inv_def split_beta)

lemma show_event_notification_fields [simp]:
  "shown_notifications (manager (show_event_notification clk a e k)) =
     shown_notifications (manager a)"
  "calendar (show_event_notification clk a e k) = calendar a"
  by (simp_all add: show_event_notification_def Let_def split_beta)

lemma ui_show_event_notification:
  "ui (show_event_notification clk a e k) =
     fst (ui_show_notification clk (Suc (Suc (clock_reads a)))
            (if current_notification (manager a) \<noteq> None then dismiss_current (ui a) else ui a)
            e k)"
  by (simp add: show_event_notification_def Let_def split_beta)

lemma cleanup_fields [simp]:
  "ui (cleanup_old_notifications a) = ui a"
  "calendar (cleanup_old_notifications a) = calendar a"
  by (simp_all add: cleanup_old_notifications_def Let_def)

lemma cleanup_shown:
  "card (shown_notifications (manager a)) \<le> 100 \<Longrightarrow>
   shown_notifications (manager (cleanup_old_notifications a)) = shown_notifications (manager a)"
  by (simp add: cleanup_old_notifications_def Let_def)

lemma card_insert_le_Suc: "card (insert x A) \<le> Suc (card A)"
  by (cases "finite A") (auto simp: card_insert_if)

lemma check_loop_calendar [simp]: "calendar (fst (check_loop clk a ns)) = calendar a"
  by (induction ns arbitrary: a) (auto simp: Let_def split_beta)

lemma check_loop_inv:
  "backlog_inv a \<Longrightarrow> card (shown_notifications (manager a)) + length ns \<le> 100 \<Longrightarrow>
   backlog_inv (fst (check_loop clk a ns))"
proof (induction ns arbitrary: a)
  case Nil
  then show ?case by simp
next
  case (Cons p ns)
  obtain e k where p: "p = (e, k)" by (cases p)
  let ?key = "notification_key e k"
  show ?case
  proof (cases "?key \<in> shown_notifications (manager a)")
    case True
    with Cons p show ?thesis by (simp add: Let_def)
  next
    case False
    let ?a1 = "show_event_notification clk a e k"
    let ?a2 = "?a1\<lparr>manager := (manager ?a1)\<lparr>shown_notifications :=
                  insert ?key (shown_notifications (manager a))\<rparr>\<rparr>"
    let ?a3 = "cleanup_old_notifications ?a2"
    have c2: "card (shown_notifications (manager ?a2)) \<le> 100"
      using Cons.prems(2) card_insert_le_Suc [of ?key "shown_notifications (manager a)"]
      by simp
    then have s3: "shown_notifications (manager ?a3) = insert ?key (shown_notifications (manager a))"
      by (simp add: cleanup_shown)
    from Cons.prems(1) have "ui_inv (if current_notification (manager a) \<noteq> None
         then dismiss_current (ui a) else ui a) (shown_notifications (manager a))"
      by (simp add: backlog_inv_def ui_inv_dismiss_current)
    from ui_inv_show [OF this False]
    have "ui_inv (ui ?a1) (insert ?key (shown_notifications (manager a)))"
      by (simp add: ui_show_event_notification)
    then have i3: "backlog_inv ?a3"
      by (simp add: backlog_inv_def s3)
    have "card (shown_notifications (manager ?a3)) + length ns \<le> 100"
      using Cons.prems(2) card_insert_le_Suc [of ?key "shown_notifications (manager a)"]
      by (simp add: s3)
    from Cons.IH [OF i3 this] False p show ?thesis
      by (simp add: Let_def split_beta)
  qed
qed

lemma needing_length: "length (needing_notification_loop w now es) \<le> length es"
  by (induction es) (auto simp: Let_def)

lemma check_notifications_inv:
  assumes "backlog_inv a" and "below_ceiling a"
  shows "backlog_inv (fst (check_notifications S clk a))"
proof -
  let ?ns = "get_events_needing_notification (calendar a) (WARNING_MINUTES S) (clk (clock_reads a))"
  let ?a = "a\<lparr>clock_reads := Suc (clock_reads a)\<rparr>"
  have "length ?ns \<le> length (events (calendar a))"
    by (simp add: get_events_needing_notification_def needing_length)
  with assms(2) have c: "card (shown_notifications (manager ?a)) + length ?ns \<le> 100"
    by (simp add: below_ceiling_def)
  from assms(1) have "backlog_inv ?a" by (simp add: backlog_inv_def)
  from check_loop_inv [OF this c] show ?thesis
    by (simp add: check_notifications_def Let_def)
qed

lemma dismiss_notification_inv: "backlog_inv a \<Longrightarrow> backlog_inv (dismiss_notification a)"
  by (auto simp: dismiss_notification_def backlog_inv_def ui_inv_dismiss_current)

lemma auto_dismiss_notification_inv:
  "backlog_inv a \<Longrightarrow> backlog_inv (auto_dismiss_notification a)"
proof -
  assume i: "backlog_inv a"
  then have "backlog_inv (a\<lparr>manager := (manager a)\<lparr>dismiss_timer := False\<rparr>\<rparr>)"
    by (simp add: backlog_inv_def)
  then show ?thesis
    by (auto simp: auto_dismiss_notification_def dismiss_notification_inv)
qed

lemma refresh_calendar_data_fields [simp]:
  "ui (refresh_calendar_data S L G clk a) = ui a"
  "manager (refresh_calendar_data S L G clk a) = manager a"
  by (simp_all add: refresh_calendar_data_def split: prod.splits sum.splits)

lemma status_tick_fields [simp]:
  "ui (status_tick clk a) = ui a"
  "manager (status_tick clk a) = manager a"
  by (simp_all add: status_tick_def split: prod.splits)

lemma step_inv:
  assumes "backlog_inv a" and "act = Check_notifications \<longrightarrow> below_ceiling a"
  shows "backlog_inv (fst (step S L clk act a))"
proof (cases act)
  case (Refresh G)
  with assms show ?thesis by (simp add: backlog_inv_def)
next
  case Status_tick
  with assms show ?thesis by (simp add: backlog_inv_def)
next
  case Check_notifications
  with assms show ?thesis by (simp add: check_notifications_inv)
next
  case Dismiss_timer_timeout
  with assms show ?thesis by (simp add: auto_dismiss_notification_inv)
next
  case Process_queue
  with assms ui_inv_process_queue [of "ui a" "shown_notifications (manager a)" "clock_reads a"]
  show ?thesis by (simp add: backlog_inv_def split_beta)
next
  case User_dismiss
  with assms show ?thesis
    by (auto simp: backlog_inv_def ui_widget_dismiss_def ui_inv_dismissed)
next
  case Window_click
  with assms show ?thesis by (simp add: backlog_inv_def ui_inv_dismiss_current)
next
  case Auto_dismiss_timeout
  with assms show ?thesis
    by (auto simp: backlog_inv_def ui_widget_auto_dismiss_def ui_inv_dismissed)
next
  case (Animation_value v)
  with assms show ?thesis by (simp add: backlog_inv_def with_widget_def)
next
  case Fade_in_finished
  with assms show ?thesis by (simp add: backlog_inv_def with_widget_def)
next
  case Fade_out_finished
  with assms show ?thesis by (simp add: backlog_inv_def with_widget_def)
qed

lemma initial_inv: "backlog_inv (initial_app op)"
  by (simp add: backlog_inv_def ui_inv_def initial_app_def)

lemma reachable_inv: "reachable_below_ceiling S L clk a \<Longrightarrow> backlog_inv a"
  by (induction rule: reachable_below_ceiling.induct) (auto intro: initial_inv step_inv)

subsection \<open>Sessions of the scheduler\<close>

lemmas scheduler_defs = check_notifications_def get_events_needing_notification_def
  show_event_notification_def ui_show_notification_def widget_show_notification_def
  dismiss_current_def widget_dismiss_def on_notification_dismissed_def is_showing_def
  cleanup_old_notifications_def notification_key_def kind_str_def total_seconds_def
  process_queue_def with_widget_def fade_in_animation_start_def fade_out_animation_start_def

lemmas session_defs = default_settings_def session_clock_def alert_a_def alert_b_def ev_def
  timedelta_hours_def seconds_def

lemma alert_refresh:
  "refresh_calendar_data default_settings sample_lib alert_gateway session_clock (initial_app 0) =
     (initial_app 0)\<lparr>calendar := \<lparr>service_built = True, events = [alert_a, alert_b],
                  last_update = Some (timedelta_hours 17 - seconds 45)\<rparr>,
       window_events_shared := True, clock_reads := 5\<rparr>"
  by (simp add: refresh_calendar_data_def refresh_defs initial_app_def alert_gateway_def
      raw_cal_def default_settings_def normalizer_defs sample_defs no_end_value_def
      session_clock_def alert_a_def alert_b_def Let_def)

lemma first_alert_run:
  "run default_settings sample_lib session_clock
     [Refresh alert_gateway, Check_notifications, Fade_in_finished] (initial_app 0) =
     (showing_a_state, [(alert_a, start)])"
  by (simp add: alert_refresh)
     (simp add: initial_app_def scheduler_defs session_defs showing_a_state_def Let_def)

lemma second_scan:
  "step default_settings sample_lib session_clock Check_notifications showing_a_state =
     (queued_b_state, [(alert_b, start)])"
  by (simp add: scheduler_defs session_defs showing_a_state_def queued_b_state_def Let_def
      insert_commute)

lemma run_append:
  "run S L clk (xs @ ys) a =
     (fst (run S L clk ys (fst (run S L clk xs a))),
      snd (run S L clk xs a) @ snd (run S L clk ys (fst (run S L clk xs a))))"
  by (induction xs arbitrary: a) (auto simp: split_beta)

lemma two_alerts_run:
  "run default_settings sample_lib session_clock two_alerts_session (initial_app 0) =
     (queued_b_state, [(alert_a, start), (alert_b, start)])"
proof -
  have eq: "two_alerts_session =
      [Refresh alert_gateway, Check_notifications, Fade_in_finished] @ [Check_notifications]"
    by (simp add: two_alerts_session_def)
  have scan: "check_notifications default_settings session_clock showing_a_state =
      (queued_b_state, [(alert_b, start)])"
    using second_scan by simp
  show ?thesis
    unfolding eq run_append first_alert_run by (simp add: scan)
qed

lemma drain_after_fade_out:
  "map_option pair_of (ui_current_notification (ui (fst (run default_settings sample_lib
      session_clock [Fade_out_finished, Process_queue] queued_b_state)))) = Some (''b'', start) \<and>
   notification_queue (ui (fst (run default_settings sample_lib
      session_clock [Fade_out_finished, Process_queue] queued_b_state))) = [] \<and>
   fst (step default_settings sample_lib session_clock Process_queue queued_b_state) =
      queued_b_state"
  by (simp add: scheduler_defs session_defs queued_b_state_def pair_of_def)


lemma cache_key_eq: "cache_key i = replicate (Suc i) CHR ''x'' @ ''_start''"
  by (simp add: cache_key_def notification_key_def earlier_alert_def ev_def earlier_id_def
      kind_str_def)

lemma cache_key_inj: "cache_key i = cache_key j \<longleftrightarrow> i = j"
proof
  assume "cache_key i = cache_key j"
  then have "length (cache_key i) = length (cache_key j)" by simp
  then show "i = j" by (simp add: cache_key_eq)
qed simp

lemma cache_key_mem [simp]: "cache_key i \<in> cache_key ` A \<longleftrightarrow> i \<in> A"
  by (auto simp: cache_key_inj)

lemma card_cache [simp]: "card (cache_key ` {..<n}) = n"
proof -
  have "inj_on cache_key {..<n}" by (simp add: inj_on_def cache_key_inj)
  then show ?thesis by (simp add: card_image)
qed

lemma earlier_key [simp]: "notification_key (earlier_alert i) start = cache_key i"
  by (simp add: cache_key_def)

lemmas round_defs = check_notifications_def get_events_needing_notification_def
  show_event_notification_def ui_show_notification_def widget_show_notification_def
  dismiss_current_def widget_dismiss_def on_notification_dismissed_def is_showing_def
  cleanup_old_notifications_def total_seconds_def with_widget_def
  auto_dismiss_notification_def dismiss_notification_def
  fade_in_animation_start_def fade_out_animation_start_def

lemma earlier_refresh_initial:
  "refresh_calendar_data default_settings sample_lib (earlier_gateway 0) long_session_clock
     (initial_app 0) =
     (initial_app 0)\<lparr>calendar := \<lparr>service_built = True, events = [earlier_alert 0],
                  last_update = Some (timedelta_hours 17 - seconds 45)\<rparr>,
       window_events_shared := True, clock_reads := 4\<rparr>"
  by (simp add: refresh_calendar_data_def refresh_defs initial_app_def earlier_gateway_def
      raw_cal_def default_settings_def normalizer_defs sample_defs no_end_value_def
      long_session_clock_def session_clock_def earlier_alert_def Let_def)

lemma earlier_refresh:
  assumes "0 < i" and "i < 100"
  shows "refresh_calendar_data default_settings sample_lib (earlier_gateway i) long_session_clock
     (idle_state i) =
     (idle_state i)\<lparr>calendar := \<lparr>service_built = True, events = [earlier_alert i],
                  last_update = Some (timedelta_hours 17 - seconds 45)\<rparr>,
       window_events_shared := True, clock_reads := 9 * i + 4\<rparr>"
  using assms
  by (simp add: refresh_calendar_data_def refresh_defs idle_state_def earlier_gateway_def
      raw_cal_def default_settings_def normalizer_defs sample_defs no_end_value_def
      long_session_clock_def session_clock_def earlier_alert_def Let_def)


lemma earlier_alert_fields [simp]:
  "start_datetime (earlier_alert i) = timedelta_hours 17"
  "ev_status (earlier_alert i) = upcoming"
  by (simp_all add: earlier_alert_def ev_def)

lemma early_clock [simp]: "n < 910 \<Longrightarrow> long_session_clock n = timedelta_hours 17 - seconds 45"
  by (auto simp add: long_session_clock_def session_clock_def)

lemma lessThan_Suc_cache: "insert (cache_key i) (cache_key ` {..<i}) = cache_key ` {..<Suc i}"
  by (simp add: lessThan_Suc)

lemma alert_round_initial:
  "run default_settings sample_lib long_session_clock (alert_round 0) (initial_app 0) =
     (idle_state (Suc 0), [(earlier_alert 0, start)])"
  by (simp add: alert_round_def earlier_refresh_initial)
     (simp add: initial_app_def idle_state_def round_defs default_settings_def
        timedelta_hours_def seconds_def Let_def lessThan_Suc)

lemma alert_round_later:
  assumes "0 < i" and "i < 100"
  shows "run default_settings sample_lib long_session_clock (alert_round i) (idle_state i) =
     (idle_state (Suc i), [(earlier_alert i, start)])"
  using assms
  by (simp add: alert_round_def earlier_refresh)
     (simp add: idle_state_def round_defs default_settings_def
        timedelta_hours_def seconds_def Let_def lessThan_Suc_cache)

lemma alert_round_run:
  "i < 100 \<Longrightarrow>
   run default_settings sample_lib long_session_clock (alert_round i) (idle_state i) =
     (idle_state (Suc i), [(earlier_alert i, start)])"
  using alert_round_initial alert_round_later [of i]
  by (cases "i = 0") (simp_all add: idle_state_def)

lemma earlier_rounds_Suc: "earlier_rounds (Suc n) = earlier_rounds n @ alert_round n"
  by (simp add: earlier_rounds_def)

lemma earlier_rounds_run:
  "n \<le> 100 \<Longrightarrow>
   run default_settings sample_lib long_session_clock (earlier_rounds n) (initial_app 0) =
     (idle_state n, map (\<lambda>i. (earlier_alert i, start)) [0..<n])"
proof (induction n)
  case 0
  then show ?case by (simp add: earlier_rounds_def idle_state_def)
next
  case (Suc n)
  then have "n < 100" by simp
  from alert_round_run [OF this] Suc show ?case
    unfolding earlier_rounds_Suc run_append by simp
qed

lemma long_refresh:
  "refresh_calendar_data default_settings sample_lib alert_gateway long_session_clock
     (idle_state 100) = full_cache_state"
  by (simp add: refresh_calendar_data_def refresh_defs idle_state_def alert_gateway_def
      raw_cal_def default_settings_def normalizer_defs sample_defs no_end_value_def
      long_session_clock_def session_clock_def alert_a_def alert_b_def Let_def
      full_cache_state_def)


lemma alert_keys [simp]:
  "notification_key alert_a start = ''a_start''"
  "notification_key alert_b start = ''b_start''"
  by (simp_all add: notification_key_def alert_a_def alert_b_def ev_def kind_str_def)

lemma a_key_fresh [simp]: "''a_start'' \<notin> cache_key ` A"
  by (auto simp: cache_key_eq)

lemma card_full_insert [simp]: "card (insert ''a_start'' (cache_key ` {..<n})) = Suc n"
  by (simp add: card_insert_if)

lemma alert_fields [simp]:
  "start_datetime alert_a = timedelta_hours 17" "ev_status alert_a = upcoming"
  "start_datetime alert_b = timedelta_hours 17 + seconds 20" "ev_status alert_b = upcoming"
  "ev_id alert_a = ''a''" "ev_id alert_b = ''b''"
  by (simp_all add: alert_a_def alert_b_def ev_def)

lemma late_clock [simp]: "910 \<le> n \<Longrightarrow> long_session_clock n = timedelta_hours 17 - seconds 35"
  by (auto simp add: long_session_clock_def session_clock_def)



lemma full_cache_requeue:
  "map pair_of (notification_queue (ui (fst (run default_settings sample_lib long_session_clock
      [Check_notifications, Fade_in_finished, Check_notifications] full_cache_state))))
     = [(''a'', start), (''b'', start)] \<and>
   current_event (widget (ui (fst (run default_settings sample_lib long_session_clock
      [Check_notifications, Fade_in_finished] full_cache_state)))) = Some alert_a \<and>
   snd (run default_settings sample_lib long_session_clock
      [Check_notifications, Fade_in_finished] full_cache_state) = [(alert_a, start)]"
  by (simp add: full_cache_state_def round_defs default_settings_def pair_of_def
        timedelta_hours_def seconds_def Let_def)


subsection \<open>The DedupCache\<close>

lemma check_loop_below:
  "card (shown_notifications (manager a)) + length ns \<le> 100 \<Longrightarrow>
   shown_notifications (manager a) \<subseteq> shown_notifications (manager (fst (check_loop clk a ns))) \<and>
   (\<forall>p \<in> set (snd (check_loop clk a ns)).
      notification_key (fst p) (snd p) \<notin> shown_notifications (manager a))"
proof (induction ns arbitrary: a)
  case Nil
  then show ?case by simp
next
  case (Cons p ns)
  obtain e k where p: "p = (e, k)" by (cases p)
  let ?key = "notification_key e k"
  show ?case
  proof (cases "?key \<in> shown_notifications (manager a)")
    case True
    with Cons p show ?thesis by (simp add: Let_def)
  next
    case False
    let ?a1 = "show_event_notification clk a e k"
    let ?a2 = "?a1\<lparr>manager := (manager ?a1)\<lparr>shown_notifications :=
                  insert ?key (shown_notifications (manager a))\<rparr>\<rparr>"
    let ?a3 = "cleanup_old_notifications ?a2"
    have c2: "card (shown_notifications (manager ?a2)) \<le> 100"
      using Cons.prems card_insert_le_Suc [of ?key "shown_notifications (manager a)"]
      by simp
    then have s3: "shown_notifications (manager ?a3) = insert ?key (shown_notifications (manager a))"
      by (simp add: cleanup_shown)
    have "card (shown_notifications (manager ?a3)) + length ns \<le> 100"
      using Cons.prems card_insert_le_Suc [of ?key "shown_notifications (manager a)"]
      by (simp add: s3)
    from Cons.IH [OF this] False p show ?thesis
      by (auto simp add: Let_def split_beta s3)
  qed
qed

lemma check_notifications_below:
  assumes "below_ceiling a"
  shows "shown_notifications (manager a)
           \<subseteq> shown_notifications (manager (fst (check_notifications S clk a))) \<and>
         (\<forall>p \<in> set (snd (check_notifications S clk a)).
            notification_key (fst p) (snd p) \<notin> shown_notifications (manager a))"
proof -
  let ?ns = "get_events_needing_notification (calendar a) (WARNING_MINUTES S) (clk (clock_reads a))"
  let ?a = "a\<lparr>clock_reads := Suc (clock_reads a)\<rparr>"
  have "length ?ns \<le> length (events (calendar a))"
    by (simp add: get_events_needing_notification_def needing_length)
  with assms have c: "card (shown_notifications (manager ?a)) + length ?ns \<le> 100"
    by (simp add: below_ceiling_def)
  from check_loop_below [OF c] show ?thesis
    by (simp add: check_notifications_def Let_def)
qed









subsection \<open>Reachable states of the backlog\<close>

lemma run_below_append:
  "run_below_ceiling S L clk (xs @ ys) a =
     (run_below_ceiling S L clk xs a \<and> run_below_ceiling S L clk ys (fst (run S L clk xs a)))"
  by (induction xs arbitrary: a) (auto simp: split_beta)

lemma reachable_run:
  "reachable_below_ceiling S L clk a \<Longrightarrow> run_below_ceiling S L clk acts a \<Longrightarrow>
   reachable_below_ceiling S L clk (fst (run S L clk acts a))"
proof (induction acts arbitrary: a)
  case Nil
  then show ?case by simp
next
  case (Cons act acts)
  from Cons.prems have b: "act = Check_notifications \<longrightarrow> below_ceiling a"
    and r: "run_below_ceiling S L clk acts (fst (step S L clk act a))" by simp_all
  from reachable_below_ceiling.callback [OF Cons.prems(1) b]
  have "reachable_below_ceiling S L clk (fst (step S L clk act a))" .
  from Cons.IH [OF this r] show ?case by (simp add: split_beta)
qed

lemma first_alert_below:
  "run_below_ceiling default_settings sample_lib session_clock
     [Refresh alert_gateway, Check_notifications, Fade_in_finished] (initial_app 0)"
  by (simp add: alert_refresh) (simp add: below_ceiling_def initial_app_def)

lemma showing_a_reachable:
  "reachable_below_ceiling default_settings sample_lib session_clock showing_a_state"
  using reachable_run [OF reachable_below_ceiling.initial first_alert_below]
  by (simp only: first_alert_run fst_conv)

lemma showing_a_below: "below_ceiling showing_a_state"
  by (simp add: below_ceiling_def showing_a_state_def)

lemma queued_b_reachable:
  "reachable_below_ceiling default_settings sample_lib session_clock queued_b_state"
  using reachable_below_ceiling.callback [OF showing_a_reachable, of Check_notifications]
    showing_a_below
  by (simp only: second_scan fst_conv) simp

text \<open>
  C8 (as amended). In every state reached while no scan starts with more than 100 keys
  and Timeline events together: no two queued records have the same pair, the pair of the
  active record is not queued, the key of every queued record is in the DedupCache, and a
  scan fires (and so hands to the backlog) only pairs whose key is not yet in the cache.
\<close>

theorem backlog_invariant:
  assumes "reachable_below_ceiling S L clk a"
  shows "distinct (map pair_of (notification_queue (ui a))) \<and>
         (\<forall>r. ui_current_notification (ui a) = Some r \<longrightarrow>
                pair_of r \<notin> pair_of ` set (notification_queue (ui a))) \<and>
         (\<forall>r \<in> set (notification_queue (ui a)). key_of r \<in> shown_notifications (manager a)) \<and>
         (below_ceiling a \<longrightarrow>
            (\<forall>p \<in> set (snd (check_notifications S clk a)).
               notification_key (fst p) (snd p) \<notin> shown_notifications (manager a)))"
proof -
  from reachable_inv [OF assms] have "ui_inv (ui a) (shown_notifications (manager a))"
    by (simp add: backlog_inv_def)
  then show ?thesis
    using check_notifications_below [of a S clk] by (auto simp: ui_inv_def)
qed

text \<open>
  The two-alert session: when \<open>a\<close> is on screen the scan fires \<open>b\<close>, whose key is
  not in the cache; afterwards \<open>b\<close> is the one queued record and its key is in the cache.
\<close>

theorem backlog_invariant_witness:
  "reachable_below_ceiling default_settings sample_lib session_clock showing_a_state \<and>
   below_ceiling showing_a_state \<and>
   snd (check_notifications default_settings session_clock showing_a_state) =
     [(alert_b, start)] \<and>
   notification_key alert_b start \<notin> shown_notifications (manager showing_a_state) \<and>
   reachable_below_ceiling default_settings sample_lib session_clock queued_b_state \<and>
   map pair_of (notification_queue (ui queued_b_state)) = [(''b'', start)] \<and>
   distinct (map pair_of (notification_queue (ui queued_b_state))) \<and>
   key_of (hd (notification_queue (ui queued_b_state)))
     \<in> shown_notifications (manager queued_b_state)"
proof -
  have f: "snd (check_notifications default_settings session_clock showing_a_state) =
     [(alert_b, start)]"
    using second_scan by simp
  have q: "map pair_of (notification_queue (ui queued_b_state)) = [(''b'', start)]"
    by (simp add: queued_b_state_def pair_of_def alert_b_def ev_def)
  have h: "hd (notification_queue (ui queued_b_state)) \<in> set (notification_queue (ui queued_b_state))"
    by (simp add: queued_b_state_def)
  from backlog_invariant [OF showing_a_reachable] showing_a_below f
  have 1: "notification_key alert_b start \<notin> shown_notifications (manager showing_a_state)"
    by simp
  from backlog_invariant [OF queued_b_reachable] h
  have 2: "distinct (map pair_of (notification_queue (ui queued_b_state)))"
    and 3: "key_of (hd (notification_queue (ui queued_b_state)))
     \<in> shown_notifications (manager queued_b_state)"
    by blast+
  from showing_a_reachable showing_a_below f 1 queued_b_reachable q 2 3 show ?thesis
    by blast
qed

text \<open>
  C8 as stated fails once the cache has been cleared: after the 100 earlier alerts \<open>a\<close>
  fires and is on screen, its key is cleared with the cache, and the next scan fires \<open>a\<close>
  again; its record is queued, after the pair has fired and while the overlay still shows it.
\<close>

theorem requeued_after_firing_counterexample:
  "fst (run default_settings sample_lib long_session_clock
     (earlier_rounds 100 @ [Refresh alert_gateway]) (initial_app 0)) = full_cache_state \<and>
   snd (run default_settings sample_lib long_session_clock
      [Check_notifications, Fade_in_finished] full_cache_state) = [(alert_a, start)] \<and>
   current_event (widget (ui (fst (run default_settings sample_lib long_session_clock
      [Check_notifications, Fade_in_finished] full_cache_state)))) = Some alert_a \<and>
   map pair_of (notification_queue (ui (fst (run default_settings sample_lib long_session_clock
      [Check_notifications, Fade_in_finished, Check_notifications] full_cache_state))))
     = [(''a'', start), (''b'', start)]"
proof -
  have r: "fst (run default_settings sample_lib long_session_clock
     (earlier_rounds 100 @ [Refresh alert_gateway]) (initial_app 0)) = full_cache_state"
    unfolding run_append by (simp add: earlier_rounds_run long_refresh)
  from r full_cache_requeue show ?thesis by blast
qed

subsection \<open>A record that arrives while an alert is showing\<close>

lemma ui_show_while_showing:
  "is_showing (widget u) \<Longrightarrow>
   fst (ui_show_notification clk n u e k) =
     (if list_ex (\<lambda>q. ev_id (n_event q) = ev_id e \<and> n_type q = k) (notification_queue u) then u
      else u\<lparr>notification_queue := notification_queue u @
                [\<lparr>n_event = e, n_type = k, n_timestamp = clk n\<rparr>]\<rparr>)"
  by (simp add: ui_show_notification_def Let_def)

lemma widget_dismiss_showing: "is_showing w \<Longrightarrow> is_showing (widget_dismiss w)"
  by (simp add: is_showing_def widget_dismiss_def fade_out_animation_start_def)

lemma widget_dismiss_eq:
  "widget_dismiss w =
     (if fade_out_running w then w\<lparr>auto_dismiss_timer := False\<rparr>
      else w\<lparr>auto_dismiss_timer := False, fade_out_running := True,
             fade_in_running := False, opacity := 1\<rparr>)"
  by (simp add: widget_dismiss_def fade_out_animation_start_def)

lemma show_event_kept:
  assumes "is_showing (widget (ui a))" and "current_notification (manager a) = None"
  shows "widget (ui (show_event_notification clk a e k)) = widget (ui a)"
    and "ui_current_notification (ui (show_event_notification clk a e k)) =
           ui_current_notification (ui a)"
  using assms by (simp_all add: ui_show_event_notification ui_show_notification_def Let_def)

lemma show_event_dismissed:
  assumes "is_showing (widget (ui a))" and "current_notification (manager a) \<noteq> None"
  shows "widget (ui (show_event_notification clk a e k)) = widget_dismiss (widget (ui a))"
    and "ui_current_notification (ui (show_event_notification clk a e k)) = None"
  using assms widget_dismiss_showing [of "widget (ui a)"]
  by (simp_all add: ui_show_event_notification ui_show_notification_def Let_def
      dismiss_current_def on_notification_dismissed_def)

lemma show_event_queued:
  assumes "is_showing (widget (ui a))"
  shows "notification_queue (ui (show_event_notification clk a e k)) =
     (if list_ex (\<lambda>q. ev_id (n_event q) = ev_id e \<and> n_type q = k) (notification_queue (ui a))
      then notification_queue (ui a)
      else notification_queue (ui a) @
             [\<lparr>n_event = e, n_type = k, n_timestamp = clk (Suc (Suc (clock_reads a)))\<rparr>])"
    and "is_showing (widget (ui (show_event_notification clk a e k)))"
  using assms widget_dismiss_showing [of "widget (ui a)"]
  by (simp_all add: ui_show_event_notification ui_show_notification_def Let_def
      dismiss_current_def on_notification_dismissed_def)

lemma ui_show_queue:
  "\<exists>ys. notification_queue (fst (ui_show_notification clk n u e k)) = notification_queue u @ ys"
  by (auto simp: ui_show_notification_def Let_def split_beta)

lemma dismiss_current_queue [simp]:
  "notification_queue (dismiss_current u) = notification_queue u"
  by (simp add: dismiss_current_def on_notification_dismissed_def)

lemma show_event_queue:
  "\<exists>ys. notification_queue (ui (show_event_notification clk a e k)) =
     notification_queue (ui a) @ ys"
  using ui_show_queue [of clk "Suc (Suc (clock_reads a))"
      "if current_notification (manager a) \<noteq> None then dismiss_current (ui a) else ui a" e k]
  by (auto simp: ui_show_event_notification)

lemma check_loop_queue:
  "\<exists>ys. notification_queue (ui (fst (check_loop clk a ns))) = notification_queue (ui a) @ ys"
proof (induction ns arbitrary: a)
  case Nil
  then show ?case by simp
next
  case (Cons p ns)
  obtain e k where p: "p = (e, k)" by (cases p)
  let ?key = "notification_key e k"
  show ?case
  proof (cases "?key \<in> shown_notifications (manager a)")
    case True
    with Cons p show ?thesis by (simp add: Let_def)
  next
    case False
    let ?a1 = "show_event_notification clk a e k"
    let ?a2 = "?a1\<lparr>manager := (manager ?a1)\<lparr>shown_notifications :=
                  insert ?key (shown_notifications (manager a))\<rparr>\<rparr>"
    let ?a3 = "cleanup_old_notifications ?a2"
    obtain ys where 1: "notification_queue (ui ?a3) = notification_queue (ui a) @ ys"
      using show_event_queue [of clk a e k] by auto
    obtain zs where 2: "notification_queue (ui (fst (check_loop clk ?a3 ns))) =
        notification_queue (ui ?a3) @ zs"
      using Cons.IH [of ?a3] by auto
    from 1 2 False p show ?thesis
      by (simp add: Let_def split_beta)
  qed
qed

lemma step_queue:
  assumes "act \<noteq> Process_queue"
  shows "\<exists>ys. notification_queue (ui (fst (step S L clk act a))) = notification_queue (ui a) @ ys"
proof (cases act)
  case Check_notifications
  then show ?thesis
    using check_loop_queue [of clk "a\<lparr>clock_reads := Suc (clock_reads a)\<rparr>"]
    by (simp add: check_notifications_def Let_def)
next
  case Process_queue
  with assms show ?thesis by simp
qed (auto simp: auto_dismiss_notification_def dismiss_notification_def with_widget_def
      ui_widget_dismiss_def ui_widget_auto_dismiss_def on_notification_dismissed_def)

lemma process_queue_idle:
  "is_showing (widget v) \<or> notification_queue v = [] \<Longrightarrow> fst (process_queue m v) = v"
  by (auto simp: process_queue_def)

lemma process_queue_promotes:
  assumes "\<not> is_showing (widget v)" and "notification_queue v \<noteq> []"
  shows "notification_queue (fst (process_queue m v)) = tl (notification_queue v)"
    and "ui_current_notification (fst (process_queue m v)) = Some (hd (notification_queue v))"
    and "current_event (widget (fst (process_queue m v))) =
           Some (n_event (hd (notification_queue v)))"
    and "notification_type (widget (fst (process_queue m v))) =
           Some (n_type (hd (notification_queue v)))"
    and "visible (widget (fst (process_queue m v)))"
    and "fade_in_running (widget (fst (process_queue m v)))"
    and "auto_dismiss_timer (widget (fst (process_queue m v)))"
  using assms
  by (cases "notification_queue v";
      simp add: process_queue_def widget_show_notification_def fade_in_animation_start_def)+


text \<open>
  C2 (as amended). While the overlay is showing, that is visible with an opacity above 0:
  the user interface's \<^verbatim>\<open>show_notification\<close> appends a new record to the backlog
  unless a record with the same event id and kind is queued, and changes nothing else.
  \<^verbatim>\<open>show_event_notification\<close> queues the record in the same way, and the overlay is
  still showing when it returns, so the record is not displayed; when the manager holds
  no current notification the active record and the overlay are left as they are; when
  it holds one, the active alert is dismissed first: the active record is cleared, the
  auto-dismiss timer is stopped, and the fade-out is running (started from the opacity 1,
  with the fade-in stopped, unless it was running already). No callback other than the
  drain tick removes a record from the backlog. The drain tick changes nothing while the
  overlay is showing or the backlog is empty; otherwise it removes the head of the
  backlog, makes it the active record and puts it on the overlay (visible, fade-in
  running, auto-dismiss timer started).
\<close>

theorem arrival_while_showing:
  "(is_showing (widget u) \<longrightarrow>
     fst (ui_show_notification clk n u e k) =
       (if list_ex (\<lambda>q. ev_id (n_event q) = ev_id e \<and> n_type q = k) (notification_queue u) then u
        else u\<lparr>notification_queue := notification_queue u @
                  [\<lparr>n_event = e, n_type = k, n_timestamp = clk n\<rparr>]\<rparr>)) \<and>
   (is_showing (widget (ui a)) \<longrightarrow>
     notification_queue (ui (show_event_notification clk a e k)) =
       (if list_ex (\<lambda>q. ev_id (n_event q) = ev_id e \<and> n_type q = k) (notification_queue (ui a))
        then notification_queue (ui a)
        else notification_queue (ui a) @
               [\<lparr>n_event = e, n_type = k, n_timestamp = clk (Suc (Suc (clock_reads a)))\<rparr>]) \<and>
     is_showing (widget (ui (show_event_notification clk a e k)))) \<and>
   (is_showing (widget (ui a)) \<and> current_notification (manager a) = None \<longrightarrow>
     widget (ui (show_event_notification clk a e k)) = widget (ui a) \<and>
     ui_current_notification (ui (show_event_notification clk a e k)) =
       ui_current_notification (ui a)) \<and>
   (is_showing (widget (ui a)) \<and> current_notification (manager a) \<noteq> None \<longrightarrow>
     ui_current_notification (ui (show_event_notification clk a e k)) = None \<and>
     widget (ui (show_event_notification clk a e k)) =
       (if fade_out_running (widget (ui a))
        then (widget (ui a))\<lparr>auto_dismiss_timer := False\<rparr>
        else (widget (ui a))\<lparr>auto_dismiss_timer := False, fade_out_running := True,
               fade_in_running := False, opacity := 1\<rparr>)) \<and>
   (act \<noteq> Process_queue \<longrightarrow>
     take (length (notification_queue (ui a)))
          (notification_queue (ui (fst (step S L clk act a)))) = notification_queue (ui a)) \<and>
   (is_showing (widget v) \<or> notification_queue v = [] \<longrightarrow> fst (process_queue m v) = v) \<and>
   (\<not> is_showing (widget v) \<and> notification_queue v \<noteq> [] \<longrightarrow>
     notification_queue (fst (process_queue m v)) = tl (notification_queue v) \<and>
     ui_current_notification (fst (process_queue m v)) = Some (hd (notification_queue v)) \<and>
     current_event (widget (fst (process_queue m v))) =
       Some (n_event (hd (notification_queue v))) \<and>
     notification_type (widget (fst (process_queue m v))) =
       Some (n_type (hd (notification_queue v))) \<and>
     visible (widget (fst (process_queue m v))) \<and>
     fade_in_running (widget (fst (process_queue m v))) \<and>
     auto_dismiss_timer (widget (fst (process_queue m v))))"
proof -
  have 1: "act \<noteq> Process_queue \<longrightarrow>
     take (length (notification_queue (ui a)))
          (notification_queue (ui (fst (step S L clk act a)))) = notification_queue (ui a)"
    using step_queue [of act S L clk a] by auto
  have 2: "is_showing (widget (ui a)) \<and> current_notification (manager a) \<noteq> None \<longrightarrow>
     ui_current_notification (ui (show_event_notification clk a e k)) = None \<and>
     widget (ui (show_event_notification clk a e k)) =
       (if fade_out_running (widget (ui a))
        then (widget (ui a))\<lparr>auto_dismiss_timer := False\<rparr>
        else (widget (ui a))\<lparr>auto_dismiss_timer := False, fade_out_running := True,
               fade_in_running := False, opacity := 1\<rparr>)"
    using show_event_dismissed [of a clk e k] widget_dismiss_eq [of "widget (ui a)"] by simp
  have 3: "is_showing (widget (ui a)) \<and> current_notification (manager a) = None \<longrightarrow>
     widget (ui (show_event_notification clk a e k)) = widget (ui a) \<and>
     ui_current_notification (ui (show_event_notification clk a e k)) =
       ui_current_notification (ui a)"
    using show_event_kept [of a clk e k] by simp
  have 4: "\<not> is_showing (widget v) \<and> notification_queue v \<noteq> [] \<longrightarrow>
     notification_queue (fst (process_queue m v)) = tl (notification_queue v) \<and>
     ui_current_notification (fst (process_queue m v)) = Some (hd (notification_queue v)) \<and>
     current_event (widget (fst (process_queue m v))) =
       Some (n_event (hd (notification_queue v))) \<and>
     notification_type (widget (fst (process_queue m v))) =
       Some (n_type (hd (notification_queue v))) \<and>
     visible (widget (fst (process_queue m v))) \<and>
     fade_in_running (widget (fst (process_queue m v))) \<and>
     auto_dismiss_timer (widget (fst (process_queue m v)))"
    using process_queue_promotes [of v m] by simp
  show ?thesis
    using 1 2 3 4 ui_show_while_showing [of u clk n e k] show_event_queued [of a clk e k]
      process_queue_idle [of v m]
    by blast
qed


lemma faded_out_ui:
  "ui faded_out_state =
     \<lparr>widget = \<lparr>visible = False, opacity = 0, current_event = Some alert_a,
                 notification_type = Some start, fade_in_running = False,
                 fade_out_running = False, auto_dismiss_timer = False\<rparr>,
      notification_queue =
        [\<lparr>n_event = alert_b, n_type = start, n_timestamp = timedelta_hours 17 - seconds 35\<rparr>],
      ui_current_notification = None\<rparr> \<and>
   clock_reads faded_out_state = 15 \<and>
   current_notification (manager faded_out_state) = None"
  by (simp add: faded_out_state_def queued_b_state_def round_defs widget_dismiss_def)

lemma promoted_b_ui:
  "ui promoted_b_state =
     \<lparr>widget = \<lparr>visible = True, opacity = 1, current_event = Some alert_b,
                 notification_type = Some start, fade_in_running = False,
                 fade_out_running = False, auto_dismiss_timer = True\<rparr>,
      notification_queue = [],
      ui_current_notification =
        Some \<lparr>n_event = alert_b, n_type = start,
              n_timestamp = timedelta_hours 17 - seconds 35\<rparr>\<rparr> \<and>
   clock_reads promoted_b_state = 15 \<and>
   current_notification (manager promoted_b_state) = None"
  using faded_out_ui
  by (simp add: promoted_b_state_def process_queue_def round_defs split_beta)


text \<open>
  The two-alert session: \<open>b\<close> arrives while \<open>a\<close> is on screen and the manager holds
  \<open>a\<close>; \<open>a\<close> arrives again while \<open>b\<close>, promoted from the backlog, is on screen and
  the manager holds nothing; a scan that fires nothing leaves the backlog, and so does a
  drain tick while the overlay is showing; the drain tick after the fade-out promotes \<open>b\<close>.
\<close>

theorem arrival_while_showing_witness:
  "is_showing (widget (ui showing_a_state)) \<and>
   current_notification (manager showing_a_state) \<noteq> None \<and>
   ui_current_notification (ui (show_event_notification session_clock showing_a_state
      alert_b start)) = None \<and>
   widget (ui (show_event_notification session_clock showing_a_state alert_b start)) =
     \<lparr>visible = True, opacity = 1, current_event = Some alert_a,
      notification_type = Some start, fade_in_running = False,
      fade_out_running = True, auto_dismiss_timer = False\<rparr> \<and>
   notification_queue (ui (show_event_notification session_clock showing_a_state
      alert_b start)) =
     [\<lparr>n_event = alert_b, n_type = start, n_timestamp = session_clock 12\<rparr>] \<and>
   is_showing (widget (ui promoted_b_state)) \<and>
   current_notification (manager promoted_b_state) = None \<and>
   ui_current_notification (ui (show_event_notification session_clock promoted_b_state
      alert_a start)) =
     Some \<lparr>n_event = alert_b, n_type = start, n_timestamp = timedelta_hours 17 - seconds 35\<rparr> \<and>
   widget (ui (show_event_notification session_clock promoted_b_state alert_a start)) =
     \<lparr>visible = True, opacity = 1, current_event = Some alert_b,
      notification_type = Some start, fade_in_running = False,
      fade_out_running = False, auto_dismiss_timer = True\<rparr> \<and>
   notification_queue (ui (show_event_notification session_clock promoted_b_state
      alert_a start)) =
     [\<lparr>n_event = alert_a, n_type = start, n_timestamp = session_clock 17\<rparr>] \<and>
   Check_notifications \<noteq> Process_queue \<and>
   notification_queue (ui (fst (step default_settings sample_lib session_clock
      Check_notifications queued_b_state))) = notification_queue (ui queued_b_state) \<and>
   fst (process_queue 15 (ui queued_b_state)) = ui queued_b_state \<and>
   \<not> is_showing (widget (ui faded_out_state)) \<and>
   notification_queue (ui faded_out_state) \<noteq> [] \<and>
   notification_queue (fst (process_queue 15 (ui faded_out_state))) = [] \<and>
   ui_current_notification (fst (process_queue 15 (ui faded_out_state))) =
     Some \<lparr>n_event = alert_b, n_type = start, n_timestamp = timedelta_hours 17 - seconds 35\<rparr> \<and>
   current_event (widget (fst (process_queue 15 (ui faded_out_state)))) = Some alert_b \<and>
   visible (widget (fst (process_queue 15 (ui faded_out_state)))) \<and>
   fade_in_running (widget (fst (process_queue 15 (ui faded_out_state)))) \<and>
   auto_dismiss_timer (widget (fst (process_queue 15 (ui faded_out_state))))"
proof -
  note th = arrival_while_showing [where clk = session_clock and S = default_settings
      and L = sample_lib and k = start and act = Check_notifications and m = 15 and n = 0
      and u = "ui showing_a_state"]
  have s1: "is_showing (widget (ui showing_a_state))"
    and c1: "current_notification (manager showing_a_state) \<noteq> None"
    by (simp_all add: showing_a_state_def is_showing_def)
  have s2: "is_showing (widget (ui promoted_b_state))"
    and c2: "current_notification (manager promoted_b_state) = None"
    using promoted_b_ui by (simp_all add: is_showing_def)
  have s3: "\<not> is_showing (widget (ui faded_out_state))"
    and q3: "notification_queue (ui faded_out_state) \<noteq> []"
    using faded_out_ui by (simp_all add: is_showing_def)
  have s4: "is_showing (widget (ui queued_b_state))"
    by (simp add: queued_b_state_def is_showing_def)
  have n: "Check_notifications \<noteq> Process_queue" by simp
  note t1 = th [where a = showing_a_state and e = alert_b and v = "ui queued_b_state"]
  from t1 s1 c1
  have "ui_current_notification (ui (show_event_notification session_clock showing_a_state
      alert_b start)) = None \<and>
    widget (ui (show_event_notification session_clock showing_a_state alert_b start)) =
       (if fade_out_running (widget (ui showing_a_state))
        then (widget (ui showing_a_state))\<lparr>auto_dismiss_timer := False\<rparr>
        else (widget (ui showing_a_state))\<lparr>auto_dismiss_timer := False, fade_out_running := True,
               fade_in_running := False, opacity := 1\<rparr>) \<and>
    notification_queue (ui (show_event_notification session_clock showing_a_state
      alert_b start)) =
       (if list_ex (\<lambda>q. ev_id (n_event q) = ev_id alert_b \<and> n_type q = start)
             (notification_queue (ui showing_a_state))
        then notification_queue (ui showing_a_state)
        else notification_queue (ui showing_a_state) @
               [\<lparr>n_event = alert_b, n_type = start,
                 n_timestamp = session_clock (Suc (Suc (clock_reads showing_a_state)))\<rparr>])"
    by blast
  then have 1: "ui_current_notification (ui (show_event_notification session_clock
      showing_a_state alert_b start)) = None \<and>
   widget (ui (show_event_notification session_clock showing_a_state alert_b start)) =
     \<lparr>visible = True, opacity = 1, current_event = Some alert_a,
      notification_type = Some start, fade_in_running = False,
      fade_out_running = True, auto_dismiss_timer = False\<rparr> \<and>
   notification_queue (ui (show_event_notification session_clock showing_a_state
      alert_b start)) =
     [\<lparr>n_event = alert_b, n_type = start, n_timestamp = session_clock 12\<rparr>]"
    by (simp add: showing_a_state_def)
  from t1 s4 have 5: "fst (process_queue 15 (ui queued_b_state)) = ui queued_b_state"
    by blast
  note t2 = th [where a = promoted_b_state and e = alert_a and v = "ui faded_out_state"]
  from t2 s2 c2
  have "ui_current_notification (ui (show_event_notification session_clock promoted_b_state
      alert_a start)) = ui_current_notification (ui promoted_b_state) \<and>
    widget (ui (show_event_notification session_clock promoted_b_state alert_a start)) =
       widget (ui promoted_b_state) \<and>
    notification_queue (ui (show_event_notification session_clock promoted_b_state
      alert_a start)) =
       (if list_ex (\<lambda>q. ev_id (n_event q) = ev_id alert_a \<and> n_type q = start)
             (notification_queue (ui promoted_b_state))
        then notification_queue (ui promoted_b_state)
        else notification_queue (ui promoted_b_state) @
               [\<lparr>n_event = alert_a, n_type = start,
                 n_timestamp = session_clock (Suc (Suc (clock_reads promoted_b_state)))\<rparr>])"
    by blast
  then have 2: "ui_current_notification (ui (show_event_notification session_clock
      promoted_b_state alert_a start)) =
     Some \<lparr>n_event = alert_b, n_type = start, n_timestamp = timedelta_hours 17 - seconds 35\<rparr> \<and>
   widget (ui (show_event_notification session_clock promoted_b_state alert_a start)) =
     \<lparr>visible = True, opacity = 1, current_event = Some alert_b,
      notification_type = Some start, fade_in_running = False,
      fade_out_running = False, auto_dismiss_timer = True\<rparr> \<and>
   notification_queue (ui (show_event_notification session_clock promoted_b_state
      alert_a start)) =
     [\<lparr>n_event = alert_a, n_type = start, n_timestamp = session_clock 17\<rparr>]"
    using promoted_b_ui by simp
  from th [where a = queued_b_state and e = alert_a and v = "ui faded_out_state"] n
  have "take (length (notification_queue (ui queued_b_state)))
          (notification_queue (ui (fst (step default_settings sample_lib session_clock
             Check_notifications queued_b_state)))) = notification_queue (ui queued_b_state)"
    by blast
  moreover have "length (notification_queue (ui (fst (step default_settings sample_lib
      session_clock Check_notifications queued_b_state)))) = 1"
    by (simp add: queued_b_state_def round_defs default_settings_def timedelta_hours_def
        seconds_def session_clock_def)
  moreover have "length (notification_queue (ui queued_b_state)) = 1"
    by (simp add: queued_b_state_def)
  ultimately have 3: "notification_queue (ui (fst (step default_settings sample_lib session_clock
      Check_notifications queued_b_state))) = notification_queue (ui queued_b_state)"
    by simp
  from t2 s3 q3
  have "notification_queue (fst (process_queue 15 (ui faded_out_state))) =
       tl (notification_queue (ui faded_out_state)) \<and>
     ui_current_notification (fst (process_queue 15 (ui faded_out_state))) =
       Some (hd (notification_queue (ui faded_out_state))) \<and>
     current_event (widget (fst (process_queue 15 (ui faded_out_state)))) =
       Some (n_event (hd (notification_queue (ui faded_out_state)))) \<and>
     visible (widget (fst (process_queue 15 (ui faded_out_state)))) \<and>
     fade_in_running (widget (fst (process_queue 15 (ui faded_out_state)))) \<and>
     auto_dismiss_timer (widget (fst (process_queue 15 (ui faded_out_state))))"
    by blast
  then have 4: "notification_queue (fst (process_queue 15 (ui faded_out_state))) = [] \<and>
   ui_current_notification (fst (process_queue 15 (ui faded_out_state))) =
     Some \<lparr>n_event = alert_b, n_type = start, n_timestamp = timedelta_hours 17 - seconds 35\<rparr> \<and>
   current_event (widget (fst (process_queue 15 (ui faded_out_state)))) = Some alert_b \<and>
   visible (widget (fst (process_queue 15 (ui faded_out_state)))) \<and>
   fade_in_running (widget (fst (process_queue 15 (ui faded_out_state)))) \<and>
   auto_dismiss_timer (widget (fst (process_queue 15 (ui faded_out_state))))"
    using faded_out_ui by simp
  from s1 c1 1 s2 c2 2 n 3 5 s3 q3 4 show ?thesis by blast
qed

text \<open>
  C2 as stated fails: \<open>a\<close> is active and on screen when the scan fires \<open>b\<close>;
  \<^verbatim>\<open>show_event_notification\<close> emits \<^verbatim>\<open>hide_notification\<close> first, so the active
  record is cleared, the auto-dismiss timer is stopped and the fade-out of \<open>a\<close> starts;
  \<open>b\<close> is queued, and the drain tick after the fade-out makes it active, though nobody
  dismissed \<open>a\<close> and its timer had not run out.
\<close>

theorem active_alert_dismissed_counterexample:
  "run default_settings sample_lib session_clock
     [Refresh alert_gateway, Check_notifications, Fade_in_finished] (initial_app 0) =
     (showing_a_state, [(alert_a, start)]) \<and>
   is_showing (widget (ui showing_a_state)) \<and>
   map_option pair_of (ui_current_notification (ui showing_a_state)) = Some (''a'', start) \<and>
   auto_dismiss_timer (widget (ui showing_a_state)) \<and>
   \<not> fade_out_running (widget (ui showing_a_state)) \<and>
   step default_settings sample_lib session_clock Check_notifications showing_a_state =
     (queued_b_state, [(alert_b, start)]) \<and>
   ui_current_notification (ui queued_b_state) = None \<and>
   fade_out_running (widget (ui queued_b_state)) \<and>
   \<not> auto_dismiss_timer (widget (ui queued_b_state)) \<and>
   map_option pair_of (ui_current_notification (ui (fst (run default_settings sample_lib
      session_clock [Fade_out_finished, Process_queue] queued_b_state)))) = Some (''b'', start)"
proof -
  have "is_showing (widget (ui showing_a_state)) \<and>
   map_option pair_of (ui_current_notification (ui showing_a_state)) = Some (''a'', start) \<and>
   auto_dismiss_timer (widget (ui showing_a_state)) \<and>
   \<not> fade_out_running (widget (ui showing_a_state))"
    by (simp add: showing_a_state_def is_showing_def pair_of_def alert_a_def ev_def)
  moreover have "ui_current_notification (ui queued_b_state) = None \<and>
   fade_out_running (widget (ui queued_b_state)) \<and>
   \<not> auto_dismiss_timer (widget (ui queued_b_state))"
    by (simp add: queued_b_state_def)
  ultimately show ?thesis
    using first_alert_run second_scan drain_after_fade_out by blast
qed


text \<open>
  Outside C2 as amended: an alert that has just been put on the overlay has the opacity 0
  until its fade-in advances, so \<^verbatim>\<open>is_showing\<close> is false. When one scan fires \<open>a\<close>
  and then \<open>b\<close>, \<open>b\<close> is not queued: it takes the place of \<open>a\<close> as the active
  record and on the overlay.
\<close>

lemma same_scan_replaces:
  "snd (run default_settings sample_lib same_scan_clock
          [Refresh alert_gateway, Check_notifications] (initial_app 0)) =
     [(alert_a, start), (alert_b, start)] \<and>
   notification_queue (ui (fst (run default_settings sample_lib same_scan_clock
          [Refresh alert_gateway, Check_notifications] (initial_app 0)))) = [] \<and>
   map_option pair_of (ui_current_notification (ui (fst (run default_settings sample_lib
          same_scan_clock [Refresh alert_gateway, Check_notifications] (initial_app 0))))) =
     Some (''b'', start) \<and>
   current_event (widget (ui (fst (run default_settings sample_lib same_scan_clock
          [Refresh alert_gateway, Check_notifications] (initial_app 0))))) = Some alert_b"
proof -
  have "refresh_calendar_data default_settings sample_lib alert_gateway same_scan_clock
     (initial_app 0) =
     (initial_app 0)\<lparr>calendar := \<lparr>service_built = True, events = [alert_a, alert_b],
                  last_update = Some (timedelta_hours 17 - seconds 35)\<rparr>,
       window_events_shared := True, clock_reads := 5\<rparr>"
    by (simp add: refresh_calendar_data_def refresh_defs initial_app_def alert_gateway_def
      raw_cal_def default_settings_def normalizer_defs sample_defs no_end_value_def
      same_scan_clock_def alert_a_def alert_b_def Let_def)
  then show ?thesis
    by (simp add: initial_app_def round_defs default_settings_def same_scan_clock_def
        timedelta_hours_def seconds_def pair_of_def Let_def)
qed

end
